theory Spec2Isabelle
  imports Complex_Main
begin

section \<open>The bouncing-ball engine (bouncy\_ball\_engine.py)\<close>

text \<open>
  The program is embedded twice, because Python's \<open>float\<close> is an IEEE double.

  In the first embedding a \<open>float\<close> is a \<^typ>\<open>real\<close> and arithmetic is exact. It serves
  the properties that do not depend on the last digit of a result: the order of the
  steps, the branch taken, the colour index, the trail.

  In the second embedding (the definitions whose names end in \<open>_fl\<close>) every arithmetic
  operation is followed by \<open>fl\<close>, rounding to the nearest double, ties to even. It
  serves the two properties that rounding decides: containment after the clamp, and the
  frame in which an impact expires.

  Python's \<open>int\<close> is \<^typ>\<open>int\<close>. Every statement that mutates \<open>self\<close> becomes a record
  update on an explicit state; every operation that can raise returns a value of
  \<open>py_error + 'a\<close>. The local \<open>dist\<close> of \<open>Ball.update\<close> is written \<open>dst\<close>, and
  \<open>max_dist\<close> in a \<open>let\<close> is \<open>md\<close>.

  The selectors of the records carry the class name as a prefix (\<open>ball_x\<close> for
  \<open>Ball.x\<close>, \<open>arena_cx\<close> for \<open>Arena.cx\<close>), and the two \<open>update\<close> methods are
  \<open>TrailManager_update\<close> and \<open>Ball_update\<close>.
\<close>

subsection \<open>Config\<close>

definition BALL_MAX_RATIO :: real where "BALL_MAX_RATIO = 8 / 10"
definition GROWTH_PER_SEC :: real where "GROWTH_PER_SEC = 12"
definition RESTIUTION :: real where "RESTIUTION = 95 / 100"
definition TANGENTIAL_FRICTION :: real where "TANGENTIAL_FRICTION = 99 / 100"
definition LINEAR_FRICTION :: real where "LINEAR_FRICTION = 999 / 1000"
definition GRAVITY :: real where "GRAVITY = 200"
definition BALL_BASE_RADIUS :: real where "BALL_BASE_RADIUS = 15"

definition TRAIL_LEN :: nat where "TRAIL_LEN = 140"
definition IMPACT_LIFETIME :: real where "IMPACT_LIFETIME = 6 / 10"

type_synonym rgb = "int \<times> int \<times> int"

definition COLORS :: "rgb list" where
  "COLORS = [(255, 0, 0), (0, 255, 0), (0, 0, 255),
             (255, 255, 0), (255, 0, 255), (0, 255, 255)]"

subsection \<open>Errors the interpreter can raise in this code\<close>

datatype py_error = ZeroDivisionError | IndexError

definition float_div :: "real \<Rightarrow> real \<Rightarrow> py_error + real" where
  \<comment> \<open>\<open>a / b\<close> on floats raises when the divisor is zero.\<close>
  "float_div a b = (if b = 0 then Inl ZeroDivisionError else Inr (a / b))"

definition list_getitem :: "'a list \<Rightarrow> int \<Rightarrow> py_error + 'a" where
  \<comment> \<open>\<open>xs[i]\<close>: an index below zero counts from the end; out of range raises.\<close>
  "list_getitem xs i =
     (let k = (if i < 0 then i + int (length xs) else i)
      in if k < 0 \<or> int (length xs) \<le> k then Inl IndexError else Inr (xs ! nat k))"

definition hypot :: "real \<Rightarrow> real \<Rightarrow> real" where
  \<comment> \<open>\<open>math.hypot\<close>.\<close>
  "hypot a c = sqrt (a * a + c * c)"

subsection \<open>Arena\<close>

record arena =
  arena_cx :: real
  arena_cy :: real
  arena_radius :: real

subsection \<open>TrailManager\<close>

type_synonym impact = "(real \<times> real) \<times> real \<times> rgb"

record trail_manager =
  motion_trail :: "(real \<times> real) list"
  impacts :: "impact list"

definition deque_append :: "nat \<Rightarrow> 'a list \<Rightarrow> 'a \<Rightarrow> 'a list" where
  \<comment> \<open>\<open>deque(maxlen=n).append(v)\<close>: the item goes to the right end, and when the
      deque is then longer than \<open>n\<close> one item is dropped from the left end.\<close>
  "deque_append n xs v = (let ys = xs @ [v] in if n < length ys then tl ys else ys)"

definition TrailManager_init :: trail_manager where
  "TrailManager_init = \<lparr>motion_trail = [], impacts = []\<rparr>"

definition TrailManager_push_position :: "real \<Rightarrow> real \<Rightarrow> trail_manager \<Rightarrow> trail_manager" where
  "TrailManager_push_position px py t =
     t\<lparr>motion_trail := deque_append TRAIL_LEN (motion_trail t) (px, py)\<rparr>"

definition TrailManager_add_impact :: "real \<times> real \<Rightarrow> rgb \<Rightarrow> trail_manager \<Rightarrow> trail_manager" where
  "TrailManager_add_impact pos color t =
     t\<lparr>impacts := impacts t @ [(pos, IMPACT_LIFETIME, color)]\<rparr>"

fun alive_after :: "real \<Rightarrow> impact list \<Rightarrow> impact list" where
  \<comment> \<open>The \<open>for\<close> loop of \<open>TrailManager.update\<close>, which builds the list \<open>alive\<close>.\<close>
  "alive_after dt [] = []"
| "alive_after dt ((pos, t, col) # rest) =
     (let t' = t - dt
      in if t' > 0 then (pos, t', col) # alive_after dt rest else alive_after dt rest)"

definition TrailManager_update :: "real \<Rightarrow> trail_manager \<Rightarrow> trail_manager" where
  "TrailManager_update dt t = t\<lparr>impacts := alive_after dt (impacts t)\<rparr>"

subsection \<open>Ball\<close>

record ball =
  ball_x :: real
  ball_y :: real
  ball_vx :: real
  ball_vy :: real
  ball_radius :: real
  color_index :: int
  ball_arena :: arena
  trails :: trail_manager

definition Ball_color :: "ball \<Rightarrow> py_error + rgb" where
  "Ball_color b = list_getitem COLORS (color_index b)"

definition Ball_cycle_color :: "ball \<Rightarrow> ball" where
  "Ball_cycle_color b = b\<lparr>color_index := (color_index b + 1) mod int (length COLORS)\<rparr>"

definition Ball_reflect_on_circle :: "real \<Rightarrow> real \<Rightarrow> ball \<Rightarrow> ball" where
  "Ball_reflect_on_circle normal_x normal_y b =
     (let vn = ball_vx b * normal_x + ball_vy b * normal_y;
          vt_x = ball_vx b - vn * normal_x;
          vt_y = ball_vy b - vn * normal_y;
          vn_reflected = - vn * RESTIUTION;
          vt_x' = vt_x * TANGENTIAL_FRICTION;
          vt_y' = vt_y * TANGENTIAL_FRICTION
      in b\<lparr>ball_vx := vn_reflected * normal_x + vt_x',
            ball_vy := vn_reflected * normal_y + vt_y'\<rparr>)"

text \<open>\<open>Ball.update\<close>, lines 128 to 134: gravity, air friction, explicit Euler step.
  Each \<open>let\<close> is one assignment of the source, in the source's order.\<close>

definition apply_motion :: "real \<Rightarrow> ball \<Rightarrow> ball" where
  "apply_motion dt b0 =
     (let b1 = b0\<lparr>ball_vy := ball_vy b0 + GRAVITY * dt\<rparr>;
          b2 = b1\<lparr>ball_vx := ball_vx b1 * LINEAR_FRICTION\<rparr>;
          b3 = b2\<lparr>ball_vy := ball_vy b2 * LINEAR_FRICTION\<rparr>;
          b4 = b3\<lparr>ball_x := ball_x b3 + ball_vx b3 * dt\<rparr>;
          b5 = b4\<lparr>ball_y := ball_y b4 + ball_vy b4 * dt\<rparr>
      in b5)"

text \<open>Lines 136 to 138: the radius grows towards its cap.\<close>

definition grow_radius :: "real \<Rightarrow> ball \<Rightarrow> ball" where
  "grow_radius dt b =
     (let target_max = arena_radius (ball_arena b) * BALL_MAX_RATIO
      in if ball_radius b < target_max
         then b\<lparr>ball_radius := min target_max (ball_radius b + GROWTH_PER_SEC * dt)\<rparr>
         else b)"

text \<open>Lines 140 to 143: the quantities the collision test compares.\<close>

definition center_dist :: "ball \<Rightarrow> real" where
  "center_dist b =
     hypot (ball_x b - arena_cx (ball_arena b)) (ball_y b - arena_cy (ball_arena b))"

definition max_dist :: "ball \<Rightarrow> real" where
  "max_dist b = arena_radius (ball_arena b) - ball_radius b"

definition hits_boundary :: "ball \<Rightarrow> bool" where
  "hits_boundary b = (center_dist b > max_dist b)"

text \<open>Lines 146 to 149: the collision normal, with its guard on \<open>dist == 0\<close>.\<close>

definition collision_normal :: "real \<Rightarrow> real \<Rightarrow> real \<Rightarrow> py_error + (real \<times> real)" where
  "collision_normal dx dy dst =
     (if dst = 0 then Inr (1, 0)
      else (case float_div dx dst of
              Inl e \<Rightarrow> Inl e
            | Inr nx \<Rightarrow> (case float_div dy dst of
                           Inl e \<Rightarrow> Inl e
                         | Inr ny \<Rightarrow> Inr (nx, ny))))"

text \<open>Lines 145 to 158: the collision branch. The colour of the impact is read
  (\<open>self.color\<close>) after the reflection and before \<open>cycle_color\<close>.\<close>

definition resolve_collision :: "ball \<Rightarrow> py_error + ball" where
  "resolve_collision b =
     (let dx = ball_x b - arena_cx (ball_arena b);
          dy = ball_y b - arena_cy (ball_arena b);
          dst = hypot dx dy;
          md = arena_radius (ball_arena b) - ball_radius b
      in if dst > md
         then (case collision_normal dx dy dst of
                 Inl e \<Rightarrow> Inl e
               | Inr (nx, ny) \<Rightarrow>
                   (let b1 = b\<lparr>ball_x := arena_cx (ball_arena b) + nx * md\<rparr>;
                        b2 = b1\<lparr>ball_y := arena_cy (ball_arena b1) + ny * md\<rparr>;
                        b3 = Ball_reflect_on_circle nx ny b2
                    in (case Ball_color b3 of
                          Inl e \<Rightarrow> Inl e
                        | Inr col \<Rightarrow>
                            (let b4 = b3\<lparr>trails :=
                                          TrailManager_add_impact (ball_x b3, ball_y b3) col (trails b3)\<rparr>
                             in Inr (Ball_cycle_color b4)))))
         else Inr b)"

text \<open>Lines 160 and 161: the trail is fed and aged on every frame.\<close>

definition record_trails :: "real \<Rightarrow> ball \<Rightarrow> ball" where
  "record_trails dt b =
     b\<lparr>trails := TrailManager_update dt
                    (TrailManager_push_position (ball_x b) (ball_y b) (trails b))\<rparr>"

definition Ball_update :: "real \<Rightarrow> ball \<Rightarrow> py_error + ball" where
  "Ball_update dt b =
     (case resolve_collision (grow_radius dt (apply_motion dt b)) of
        Inl e \<Rightarrow> Inl e
      | Inr b' \<Rightarrow> Inr (record_trails dt b'))"

text \<open>The frames of \<open>App.run\<close>: one \<open>Ball.update\<close> per clock tick, until one raises.\<close>

fun run :: "real list \<Rightarrow> ball \<Rightarrow> py_error + ball" where
  "run [] b = Inr b"
| "run (dt # dts) b = (case Ball_update dt b of Inl e \<Rightarrow> Inl e | Inr b' \<Rightarrow> run dts b')"

text \<open>The number of frames of a run in which the collision branch is taken.\<close>

fun collisions :: "real list \<Rightarrow> ball \<Rightarrow> nat" where
  "collisions [] b = 0"
| "collisions (dt # dts) b =
     (case Ball_update dt b of
        Inl e \<Rightarrow> 0
      | Inr b' \<Rightarrow> (if hits_boundary (grow_radius dt (apply_motion dt b)) then 1 else 0)
                  + collisions dts b')"

text \<open>The state \<open>App.__init__\<close> builds (an 800 by 600 window, margin 50), with the
  random launch angle taken to be 0, so that the velocity is \<open>(250, -150)\<close>.\<close>

definition app_arena :: arena where
  "app_arena = \<lparr>arena_cx = 400, arena_cy = 300, arena_radius = 250\<rparr>"

definition app_ball :: ball where
  "app_ball = \<lparr>ball_x = 400, ball_y = 175, ball_vx = 250, ball_vy = - 150,
               ball_radius = BALL_BASE_RADIUS, color_index = 0,
               ball_arena = app_arena, trails = TrailManager_init\<rparr>"

text \<open>A sequence of \<open>push_position\<close> calls, first element first.\<close>

fun push_all :: "(real \<times> real) list \<Rightarrow> trail_manager \<Rightarrow> trail_manager" where
  "push_all [] t = t"
| "push_all ((px, py) # ps) t = push_all ps (TrailManager_push_position px py t)"

text \<open>A trail at capacity, used as a concrete input.\<close>

definition full_trail :: trail_manager where
  "full_trail = \<lparr>motion_trail = replicate 140 (0, 0), impacts = []\<rparr>"

text \<open>The quantities \<open>vn\<close> and \<open>(vt_x, vt_y)\<close> of \<open>_reflect_on_circle\<close>, read off a state:
  the velocity along a normal, the velocity across it, and the length of the latter.\<close>

definition normal_component :: "real \<Rightarrow> real \<Rightarrow> ball \<Rightarrow> real" where
  "normal_component nx ny b = ball_vx b * nx + ball_vy b * ny"

definition tangential_component :: "real \<Rightarrow> real \<Rightarrow> ball \<Rightarrow> real \<times> real" where
  "tangential_component nx ny b =
     (ball_vx b - normal_component nx ny b * nx, ball_vy b - normal_component nx ny b * ny)"

definition tangential_speed :: "real \<Rightarrow> real \<Rightarrow> ball \<Rightarrow> real" where
  "tangential_speed nx ny b =
     hypot (fst (tangential_component nx ny b)) (snd (tangential_component nx ny b))"

text \<open>The indices at which \<open>COLORS[color_index]\<close> does not raise.\<close>

definition valid_color_index :: "ball \<Rightarrow> bool" where
  "valid_color_index b =
     (- int (length COLORS) \<le> color_index b \<and> color_index b < int (length COLORS))"

text \<open>The normal \<open>(nx, ny)\<close> that the collision branch computes for a state.\<close>

definition unit_normal :: "ball \<Rightarrow> real \<times> real" where
  "unit_normal b =
     (if center_dist b = 0 then (1, 0)
      else ((ball_x b - arena_cx (ball_arena b)) / center_dist b,
            (ball_y b - arena_cy (ball_arena b)) / center_dist b))"

text \<open>The ball of the application one pixel from its farthest position, moving outwards.\<close>

definition edge_ball :: ball where
  "edge_ball = app_ball\<lparr>ball_x := 634, ball_y := 300, ball_vx := 250, ball_vy := 0\<rparr>"

text \<open>A ball larger than its arena, sitting on the centre: the collision branch is taken
  with \<open>dist == 0\<close>.\<close>

definition oversized_ball :: ball where
  "oversized_ball = \<lparr>ball_x = 0, ball_y = 0, ball_vx = 3, ball_vy = 4,
                     ball_radius = 20, color_index = 0,
                     ball_arena = \<lparr>arena_cx = 0, arena_cy = 0, arena_radius = 10\<rparr>,
                     trails = TrailManager_init\<rparr>"

text \<open>The ball of the application at rest on the centre of the arena.\<close>

definition rest_ball :: ball where
  "rest_ball = app_ball\<lparr>ball_x := 400, ball_y := 300, ball_vx := 0, ball_vy := 0\<rparr>"

subsection \<open>Double precision\<close>

text \<open>
  \<open>fl x\<close> is the double nearest to \<open>x\<close>: 53 significant bits, ties to the even
  significand. The exponent is not bounded, so \<open>fl\<close> agrees with IEEE binary64 as long as
  no result overflows or is subnormal, which is the case for every value computed below.
  \<open>unit_roundoff\<close> is the largest relative error of one rounding.
\<close>

definition round_half_even :: "real \<Rightarrow> int" where
  "round_half_even y =
     (let f = \<lfloor>y\<rfloor>; d = y - of_int f
      in if d < 1 / 2 then f else if 1 / 2 < d then f + 1 else if even f then f else f + 1)"

definition fl :: "real \<Rightarrow> real" where
  "fl x =
     (if x = 0 then 0
      else (let e = \<lfloor>log 2 \<bar>x\<bar>\<rfloor> - 52
            in of_int (round_half_even (x / 2 powr of_int e)) * 2 powr of_int e))"

definition unit_roundoff :: real where
  "unit_roundoff = 1 / 2 ^ 53"

subsection \<open>TrailManager in double precision\<close>

definition IMPACT_LIFETIME_fl :: real where
  "IMPACT_LIFETIME_fl = fl (6 / 10)"

definition TrailManager_add_impact_fl :: "real \<times> real \<Rightarrow> rgb \<Rightarrow> trail_manager \<Rightarrow> trail_manager" where
  "TrailManager_add_impact_fl pos color t =
     t\<lparr>impacts := impacts t @ [(pos, IMPACT_LIFETIME_fl, color)]\<rparr>"

fun alive_after_fl :: "real \<Rightarrow> impact list \<Rightarrow> impact list" where
  "alive_after_fl dt [] = []"
| "alive_after_fl dt ((pos, t, col) # rest) =
     (let t' = fl (t - dt)
      in if t' > 0 then (pos, t', col) # alive_after_fl dt rest else alive_after_fl dt rest)"

definition TrailManager_update_fl :: "real \<Rightarrow> trail_manager \<Rightarrow> trail_manager" where
  "TrailManager_update_fl dt t = t\<lparr>impacts := alive_after_fl dt (impacts t)\<rparr>"

fun update_all_fl :: "real list \<Rightarrow> trail_manager \<Rightarrow> trail_manager" where
  "update_all_fl [] t = t"
| "update_all_fl (dt # dts) t = update_all_fl dts (TrailManager_update_fl dt t)"

subsection \<open>Ball in double precision\<close>

text \<open>
  The float literals of the configuration are the doubles nearest to their decimal
  values; \<open>GRAVITY\<close>, \<open>GROWTH_PER_SEC\<close> and the integers are doubles already.
  \<open>math.hypot\<close> is taken to return the correctly rounded Euclidean norm.
  Each definition below is its namesake above with \<open>fl\<close> after every operation.
\<close>

definition LINEAR_FRICTION_fl :: real where "LINEAR_FRICTION_fl = fl (999 / 1000)"
definition BALL_MAX_RATIO_fl :: real where "BALL_MAX_RATIO_fl = fl (8 / 10)"
definition RESTIUTION_fl :: real where "RESTIUTION_fl = fl (95 / 100)"
definition TANGENTIAL_FRICTION_fl :: real where "TANGENTIAL_FRICTION_fl = fl (99 / 100)"

definition float_div_fl :: "real \<Rightarrow> real \<Rightarrow> py_error + real" where
  "float_div_fl a b = (if b = 0 then Inl ZeroDivisionError else Inr (fl (a / b)))"

definition hypot_fl :: "real \<Rightarrow> real \<Rightarrow> real" where
  "hypot_fl a c = fl (hypot a c)"

definition Ball_reflect_on_circle_fl :: "real \<Rightarrow> real \<Rightarrow> ball \<Rightarrow> ball" where
  "Ball_reflect_on_circle_fl normal_x normal_y b =
     (let vn = fl (fl (ball_vx b * normal_x) + fl (ball_vy b * normal_y));
          vt_x = fl (ball_vx b - fl (vn * normal_x));
          vt_y = fl (ball_vy b - fl (vn * normal_y));
          vn_reflected = fl (- vn * RESTIUTION_fl);
          vt_x' = fl (vt_x * TANGENTIAL_FRICTION_fl);
          vt_y' = fl (vt_y * TANGENTIAL_FRICTION_fl)
      in b\<lparr>ball_vx := fl (fl (vn_reflected * normal_x) + vt_x'),
            ball_vy := fl (fl (vn_reflected * normal_y) + vt_y')\<rparr>)"

definition apply_motion_fl :: "real \<Rightarrow> ball \<Rightarrow> ball" where
  "apply_motion_fl dt b0 =
     (let b1 = b0\<lparr>ball_vy := fl (ball_vy b0 + fl (GRAVITY * dt))\<rparr>;
          b2 = b1\<lparr>ball_vx := fl (ball_vx b1 * LINEAR_FRICTION_fl)\<rparr>;
          b3 = b2\<lparr>ball_vy := fl (ball_vy b2 * LINEAR_FRICTION_fl)\<rparr>;
          b4 = b3\<lparr>ball_x := fl (ball_x b3 + fl (ball_vx b3 * dt))\<rparr>;
          b5 = b4\<lparr>ball_y := fl (ball_y b4 + fl (ball_vy b4 * dt))\<rparr>
      in b5)"

definition grow_radius_fl :: "real \<Rightarrow> ball \<Rightarrow> ball" where
  "grow_radius_fl dt b =
     (let target_max = fl (arena_radius (ball_arena b) * BALL_MAX_RATIO_fl)
      in if ball_radius b < target_max
         then b\<lparr>ball_radius := min target_max (fl (ball_radius b + fl (GROWTH_PER_SEC * dt)))\<rparr>
         else b)"

definition collision_normal_fl :: "real \<Rightarrow> real \<Rightarrow> real \<Rightarrow> py_error + (real \<times> real)" where
  "collision_normal_fl dx dy dst =
     (if dst = 0 then Inr (1, 0)
      else (case float_div_fl dx dst of
              Inl e \<Rightarrow> Inl e
            | Inr nx \<Rightarrow> (case float_div_fl dy dst of
                           Inl e \<Rightarrow> Inl e
                         | Inr ny \<Rightarrow> Inr (nx, ny))))"

definition resolve_collision_fl :: "ball \<Rightarrow> py_error + ball" where
  "resolve_collision_fl b =
     (let dx = fl (ball_x b - arena_cx (ball_arena b));
          dy = fl (ball_y b - arena_cy (ball_arena b));
          dst = hypot_fl dx dy;
          md = fl (arena_radius (ball_arena b) - ball_radius b)
      in if dst > md
         then (case collision_normal_fl dx dy dst of
                 Inl e \<Rightarrow> Inl e
               | Inr (nx, ny) \<Rightarrow>
                   (let b1 = b\<lparr>ball_x := fl (arena_cx (ball_arena b) + fl (nx * md))\<rparr>;
                        b2 = b1\<lparr>ball_y := fl (arena_cy (ball_arena b1) + fl (ny * md))\<rparr>;
                        b3 = Ball_reflect_on_circle_fl nx ny b2
                    in (case Ball_color b3 of
                          Inl e \<Rightarrow> Inl e
                        | Inr col \<Rightarrow>
                            (let b4 = b3\<lparr>trails :=
                                          TrailManager_add_impact_fl (ball_x b3, ball_y b3) col (trails b3)\<rparr>
                             in Inr (Ball_cycle_color b4)))))
         else Inr b)"

definition record_trails_fl :: "real \<Rightarrow> ball \<Rightarrow> ball" where
  "record_trails_fl dt b =
     b\<lparr>trails := TrailManager_update_fl dt
                    (TrailManager_push_position (ball_x b) (ball_y b) (trails b))\<rparr>"

definition Ball_update_fl :: "real \<Rightarrow> ball \<Rightarrow> py_error + ball" where
  "Ball_update_fl dt b =
     (case resolve_collision_fl (grow_radius_fl dt (apply_motion_fl dt b)) of
        Inl e \<Rightarrow> Inl e
      | Inr b' \<Rightarrow> Inr (record_trails_fl dt b'))"

text \<open>A ball of the application that reaches the wall within one frame of 125 ms, and the
  state that \<open>Ball.update(0.125)\<close> leaves it in.\<close>

definition grazing_ball :: ball where
  "grazing_ball = app_ball\<lparr>ball_x := 601, ball_y := 323, ball_vx := 250, ball_vy := 0\<rparr>"

definition grazing_ball_after :: ball where
  "grazing_ball_after =
     \<lparr>ball_x = 1389863106644987 / 2199023255552,
      ball_y = 1434209042852981 / 4398046511104,
      ball_vx = - (4162141783191217 / 17592186044416),
      ball_vy = - (130628030827231 / 4398046511104),
      ball_radius = 33 / 2,
      color_index = 1,
      ball_arena = app_arena,
      trails = \<lparr>motion_trail = [(1389863106644987 / 2199023255552,
                                     1434209042852981 / 4398046511104)],
                impacts = [((1389863106644987 / 2199023255552,
                             1434209042852981 / 4398046511104),
                            4278419646001971 / 9007199254740992, (255, 0, 0))]\<rparr>\<rparr>"

text \<open>The collision test of line 145 as the code evaluates it, and the tolerance that
  the rounding of the clamp needs: \<open>2^-50\<close> times the size of the numbers involved.\<close>

definition hits_boundary_fl :: "ball \<Rightarrow> bool" where
  "hits_boundary_fl b =
     (hypot_fl (fl (ball_x b - arena_cx (ball_arena b))) (fl (ball_y b - arena_cy (ball_arena b)))
        > fl (arena_radius (ball_arena b) - ball_radius b))"

definition epsilon :: "ball \<Rightarrow> real" where
  "epsilon b =
     8 * unit_roundoff
       * (\<bar>arena_cx (ball_arena b)\<bar> + \<bar>arena_cy (ball_arena b)\<bar> + max_dist b)"

section \<open>The motion trail\<close>

subsection \<open>The bounded trail\<close>

lemma deque_append_drop:
  "length xs \<le> n \<Longrightarrow> deque_append n xs v = drop (length xs + 1 - n) (xs @ [v])"
  by (cases "length xs = n")
     (simp_all add: deque_append_def Let_def drop_Suc [symmetric] tl_append split: list.splits,
      auto simp: drop_Suc)

lemma deque_append_length: "length xs \<le> n \<Longrightarrow> length (deque_append n xs v) \<le> n"
  by (simp add: deque_append_def Let_def)

lemma drop_tail_again:
  "drop (length (drop (length zs - n) zs @ ps) - n) (drop (length zs - n) zs @ ps)
     = drop (length (zs @ ps) - n) (zs @ ps)"
proof -
  have "drop (length zs - n) zs @ ps = drop (length zs - n) (zs @ ps)"
    by simp
  moreover have "length (drop (length zs - n) zs @ ps) - n + (length zs - n) = length (zs @ ps) - n"
    by (cases "length zs \<le> n") simp_all
  ultimately show ?thesis
    by (simp only: drop_drop)
qed

lemma push_all_trail:
  "length (motion_trail t) \<le> TRAIL_LEN \<Longrightarrow>
   motion_trail (push_all ps t)
     = drop (length (motion_trail t @ ps) - TRAIL_LEN) (motion_trail t @ ps)"
proof (induction ps t rule: push_all.induct)
  case (1 t)
  then show ?case by simp
next
  case (2 px py ps t)
  let ?t' = "TrailManager_push_position px py t"
  have len: "length (motion_trail ?t') \<le> TRAIL_LEN"
    using 2(2) by (simp add: TrailManager_push_position_def deque_append_length)
  have mt: "motion_trail ?t'
              = drop (length (motion_trail t) + 1 - TRAIL_LEN) (motion_trail t @ [(px, py)])"
    using 2(2) by (simp add: TrailManager_push_position_def deque_append_drop)
  have "motion_trail (push_all ((px, py) # ps) t)
          = drop (length (motion_trail ?t' @ ps) - TRAIL_LEN) (motion_trail ?t' @ ps)"
    using 2(1) [OF len] by simp
  also have "\<dots> = drop (length (motion_trail t @ (px, py) # ps) - TRAIL_LEN)
                         (motion_trail t @ (px, py) # ps)"
    unfolding mt using drop_tail_again [of "motion_trail t @ [(px, py)]" TRAIL_LEN ps] by simp
  finally show ?case .
qed

text \<open>
  Claim C6. A deque never holds more than \<open>TRAIL_LEN\<close> samples. After any sequence of
  pushes the trail is within capacity; after more than \<open>TRAIL_LEN\<close> pushes it holds
  exactly \<open>TRAIL_LEN\<close> samples, the last \<open>TRAIL_LEN\<close> pushed, oldest first; and one push
  on a trail at capacity drops the oldest sample and appends the new one.
\<close>

theorem trail_holds_most_recent:
  "length (motion_trail t) \<le> TRAIL_LEN \<Longrightarrow>
     length (motion_trail (push_all ps t)) \<le> TRAIL_LEN
   \<and> (TRAIL_LEN < length ps \<longrightarrow>
        length (motion_trail (push_all ps t)) = TRAIL_LEN
        \<and> motion_trail (push_all ps t) = drop (length ps - TRAIL_LEN) ps)
   \<and> (length (motion_trail t) = TRAIL_LEN \<longrightarrow>
        motion_trail (TrailManager_push_position px py t) = tl (motion_trail t) @ [(px, py)])"
proof (intro conjI impI)
  assume inv: "length (motion_trail t) \<le> TRAIL_LEN"
  note eq = push_all_trail [OF inv, of ps]
  show "length (motion_trail (push_all ps t)) \<le> TRAIL_LEN"
    unfolding eq by simp
  show "length (motion_trail (push_all ps t)) = TRAIL_LEN" if "TRAIL_LEN < length ps"
    unfolding eq using that by simp
  show "motion_trail (push_all ps t) = drop (length ps - TRAIL_LEN) ps" if "TRAIL_LEN < length ps"
    unfolding eq using that by simp
  show "motion_trail (TrailManager_push_position px py t) = tl (motion_trail t) @ [(px, py)]"
    if "length (motion_trail t) = TRAIL_LEN"
    using that
    by (cases "motion_trail t")
       (simp_all add: TrailManager_push_position_def deque_append_def TRAIL_LEN_def)
qed

theorem trail_holds_most_recent_witness:
  "length (motion_trail full_trail) = TRAIL_LEN
   \<and> TRAIL_LEN < length (map (\<lambda>i. (real i, 0)) [0..<141])
   \<and> motion_trail (push_all (map (\<lambda>i. (real i, 0)) [0..<141]) full_trail)
       = map (\<lambda>i. (real i, 0)) [1..<141]
   \<and> motion_trail (TrailManager_push_position 7 9 full_trail) = replicate 139 (0, 0) @ [(7, 9)]"
  using trail_holds_most_recent [of full_trail "map (\<lambda>i. (real i, 0)) [0..<141]" 7 9]
  by (simp add: full_trail_def TRAIL_LEN_def drop_map)

subsection \<open>What each operation leaves alone\<close>

text \<open>
  Claim C10. \<open>TrailManager.update\<close> leaves the motion trail as it was, and
  \<open>push_position\<close> leaves the impacts as they were.
\<close>

theorem trail_and_impacts_independent:
  "motion_trail (TrailManager_update dt t) = motion_trail t
   \<and> impacts (TrailManager_push_position px py t) = impacts t"
  by (simp add: TrailManager_update_def TrailManager_push_position_def)

section \<open>Ball: reflection and kinematics\<close>

subsection \<open>Facts about \<open>hypot\<close>\<close>

lemma hypot_nonneg: "0 \<le> hypot a c"
  by (simp add: hypot_def)

lemma hypot_scale: "0 \<le> f \<Longrightarrow> hypot (a * f) (c * f) = hypot a c * f"
proof -
  assume f: "0 \<le> f"
  have "(a * f) * (a * f) + (c * f) * (c * f) = (a * a + c * c) * (f * f)"
    by (simp add: algebra_simps)
  then have "hypot (a * f) (c * f) = sqrt (a * a + c * c) * sqrt (f * f)"
    by (simp add: hypot_def real_sqrt_mult)
  with f show ?thesis by (simp add: hypot_def)
qed

lemma hypot_le_iff: "0 \<le> r \<Longrightarrow> hypot a c \<le> r \<longleftrightarrow> a * a + c * c \<le> r * r"
proof -
  assume r: "0 \<le> r"
  then have "r = sqrt (r * r)" by simp
  then have "hypot a c \<le> r \<longleftrightarrow> sqrt (a * a + c * c) \<le> sqrt (r * r)"
    by (simp add: hypot_def)
  then show ?thesis by (simp only: real_sqrt_le_iff)
qed

subsection \<open>Reflection on the circle\<close>

lemma reflect_vx:
  "ball_vx (Ball_reflect_on_circle nx ny b)
     = (- normal_component nx ny b * RESTIUTION) * nx
       + fst (tangential_component nx ny b) * TANGENTIAL_FRICTION"
  by (simp add: Ball_reflect_on_circle_def normal_component_def tangential_component_def Let_def
                algebra_simps)

lemma reflect_vy:
  "ball_vy (Ball_reflect_on_circle nx ny b)
     = (- normal_component nx ny b * RESTIUTION) * ny
       + snd (tangential_component nx ny b) * TANGENTIAL_FRICTION"
  by (simp add: Ball_reflect_on_circle_def normal_component_def tangential_component_def Let_def
                algebra_simps)

lemma reflect_normal:
  assumes unit: "nx * nx + ny * ny = 1"
  shows "normal_component nx ny (Ball_reflect_on_circle nx ny b)
           = - normal_component nx ny b * RESTIUTION"
proof -
  define vn where "vn = normal_component nx ny b"
  define e where "e = RESTIUTION"
  define f where "f = TANGENTIAL_FRICTION"
  have vn: "ball_vx b * nx + ball_vy b * ny = vn"
    by (simp add: vn_def normal_component_def)
  have "normal_component nx ny (Ball_reflect_on_circle nx ny b)
          = ((- vn * e) * nx + (ball_vx b - vn * nx) * f) * nx
            + ((- vn * e) * ny + (ball_vy b - vn * ny) * f) * ny"
    unfolding normal_component_def [of nx ny "Ball_reflect_on_circle nx ny b"] reflect_vx reflect_vy
    by (simp add: tangential_component_def vn_def e_def f_def)
  also have "\<dots> = (- vn * e) * (nx * nx + ny * ny)
                    + f * ((ball_vx b * nx + ball_vy b * ny) - vn * (nx * nx + ny * ny))"
    by (simp add: algebra_simps)
  also have "\<dots> = - vn * e"
    unfolding unit vn by simp
  finally show ?thesis by (simp add: vn_def e_def)
qed

lemma reflect_tangential:
  assumes unit: "nx * nx + ny * ny = 1"
  shows "tangential_component nx ny (Ball_reflect_on_circle nx ny b)
           = (fst (tangential_component nx ny b) * TANGENTIAL_FRICTION,
              snd (tangential_component nx ny b) * TANGENTIAL_FRICTION)"
  unfolding tangential_component_def [of nx ny "Ball_reflect_on_circle nx ny b"]
            reflect_normal [OF unit] reflect_vx reflect_vy
  by simp

text \<open>
  Claim C3. For a unit normal \<open>n\<close>, \<open>_reflect_on_circle\<close> sets the velocity to
  \<open>(-vn * RESTIUTION) * n + vt * TANGENTIAL_FRICTION\<close>, where \<open>vn\<close> is the component of
  the old velocity along \<open>n\<close> and \<open>vt\<close> the rest. The new normal component has
  magnitude \<open>|vn| * RESTIUTION\<close> and the new tangential part has length
  \<open>|vt| * TANGENTIAL_FRICTION\<close>; each is strictly smaller than before when it was not
  zero (the two coefficients are 0.95 and 0.99).
\<close>

theorem reflection_decomposes:
  assumes unit: "nx * nx + ny * ny = 1"
  shows "ball_vx (Ball_reflect_on_circle nx ny b)
           = (- normal_component nx ny b * RESTIUTION) * nx
             + fst (tangential_component nx ny b) * TANGENTIAL_FRICTION
       \<and> ball_vy (Ball_reflect_on_circle nx ny b)
           = (- normal_component nx ny b * RESTIUTION) * ny
             + snd (tangential_component nx ny b) * TANGENTIAL_FRICTION
       \<and> \<bar>normal_component nx ny (Ball_reflect_on_circle nx ny b)\<bar>
           = \<bar>normal_component nx ny b\<bar> * RESTIUTION
       \<and> tangential_speed nx ny (Ball_reflect_on_circle nx ny b)
           = tangential_speed nx ny b * TANGENTIAL_FRICTION
       \<and> (normal_component nx ny b \<noteq> 0 \<longrightarrow>
            \<bar>normal_component nx ny (Ball_reflect_on_circle nx ny b)\<bar> < \<bar>normal_component nx ny b\<bar>)
       \<and> (tangential_speed nx ny b \<noteq> 0 \<longrightarrow>
            tangential_speed nx ny (Ball_reflect_on_circle nx ny b) < tangential_speed nx ny b)"
proof -
  have n: "\<bar>normal_component nx ny (Ball_reflect_on_circle nx ny b)\<bar>
             = \<bar>normal_component nx ny b\<bar> * RESTIUTION"
    unfolding reflect_normal [OF unit] by (simp add: abs_mult RESTIUTION_def)
  have t: "tangential_speed nx ny (Ball_reflect_on_circle nx ny b)
             = tangential_speed nx ny b * TANGENTIAL_FRICTION"
  proof -
    have "0 \<le> TANGENTIAL_FRICTION"
      by (simp add: TANGENTIAL_FRICTION_def)
    then show ?thesis
      unfolding tangential_speed_def reflect_tangential [OF unit] by (simp add: hypot_scale)
  qed
  have n_less: "\<bar>normal_component nx ny (Ball_reflect_on_circle nx ny b)\<bar> < \<bar>normal_component nx ny b\<bar>"
    if "normal_component nx ny b \<noteq> 0"
    unfolding n using that by (simp add: RESTIUTION_def)
  have "0 \<le> tangential_speed nx ny b"
    by (simp add: tangential_speed_def hypot_nonneg)
  then have t_less: "tangential_speed nx ny (Ball_reflect_on_circle nx ny b) < tangential_speed nx ny b"
    if "tangential_speed nx ny b \<noteq> 0"
    unfolding t using that by (simp add: TANGENTIAL_FRICTION_def)
  from n t n_less t_less show ?thesis
    by (simp only: reflect_vx reflect_vy) blast
qed

theorem reflection_decomposes_witness:
  "(3 / 5) * (3 / 5) + (4 / 5) * (4 / 5) = (1 :: real)
   \<and> normal_component (3 / 5) (4 / 5) app_ball = 30
   \<and> tangential_component (3 / 5) (4 / 5) app_ball = (232, - 174)
   \<and> \<bar>normal_component (3 / 5) (4 / 5) (Ball_reflect_on_circle (3 / 5) (4 / 5) app_ball)\<bar> = 30 * RESTIUTION
   \<and> \<bar>normal_component (3 / 5) (4 / 5) (Ball_reflect_on_circle (3 / 5) (4 / 5) app_ball)\<bar> < 30
   \<and> tangential_speed (3 / 5) (4 / 5) (Ball_reflect_on_circle (3 / 5) (4 / 5) app_ball)
       = tangential_speed (3 / 5) (4 / 5) app_ball * TANGENTIAL_FRICTION
   \<and> tangential_speed (3 / 5) (4 / 5) (Ball_reflect_on_circle (3 / 5) (4 / 5) app_ball)
       < tangential_speed (3 / 5) (4 / 5) app_ball"
proof -
  have unit: "(3 / 5) * (3 / 5) + (4 / 5) * (4 / 5) = (1 :: real)"
    by simp
  have vn: "normal_component (3 / 5) (4 / 5) app_ball = 30"
    by (simp add: normal_component_def app_ball_def)
  have vt: "tangential_component (3 / 5) (4 / 5) app_ball = (232, - 174)"
    by (simp add: tangential_component_def vn) (simp add: app_ball_def)
  have "tangential_speed (3 / 5) (4 / 5) app_ball = sqrt (290 * 290)"
    unfolding tangential_speed_def vt by (simp add: hypot_def)
  then have sp: "tangential_speed (3 / 5) (4 / 5) app_ball \<noteq> 0"
    by simp
  from reflection_decomposes [OF unit, of app_ball] unit vn vt sp show ?thesis
    by simp
qed

subsection \<open>The kinematic steps of \<open>Ball.update\<close>\<close>

text \<open>
  Claim C4. \<open>Ball.update\<close> first adds \<open>GRAVITY * dt\<close> to \<open>vy\<close>, then multiplies both
  velocity components by \<open>LINEAR_FRICTION\<close> once (no factor \<open>dt\<close>), then moves the
  position by the new velocity times \<open>dt\<close>. Radius growth does not touch position or
  velocity, so the collision handling starts from exactly these values.
\<close>

theorem kinematics_order:
  "apply_motion dt b
     = b\<lparr>ball_vy := (ball_vy b + GRAVITY * dt) * LINEAR_FRICTION,
         ball_vx := ball_vx b * LINEAR_FRICTION,
         ball_x := ball_x b + (ball_vx b * LINEAR_FRICTION) * dt,
         ball_y := ball_y b + ((ball_vy b + GRAVITY * dt) * LINEAR_FRICTION) * dt\<rparr>
   \<and> Ball_update dt b
     = (case resolve_collision (grow_radius dt
              (b\<lparr>ball_vy := (ball_vy b + GRAVITY * dt) * LINEAR_FRICTION,
                 ball_vx := ball_vx b * LINEAR_FRICTION,
                 ball_x := ball_x b + (ball_vx b * LINEAR_FRICTION) * dt,
                 ball_y := ball_y b + ((ball_vy b + GRAVITY * dt) * LINEAR_FRICTION) * dt\<rparr>)) of
          Inl e \<Rightarrow> Inl e
        | Inr b' \<Rightarrow> Inr (record_trails dt b'))
   \<and> ball_x (grow_radius dt (apply_motion dt b)) = ball_x b + (ball_vx b * LINEAR_FRICTION) * dt
   \<and> ball_y (grow_radius dt (apply_motion dt b))
       = ball_y b + ((ball_vy b + GRAVITY * dt) * LINEAR_FRICTION) * dt
   \<and> ball_vx (grow_radius dt (apply_motion dt b)) = ball_vx b * LINEAR_FRICTION
   \<and> ball_vy (grow_radius dt (apply_motion dt b)) = (ball_vy b + GRAVITY * dt) * LINEAR_FRICTION"
proof -
  have m: "apply_motion dt b
     = b\<lparr>ball_vy := (ball_vy b + GRAVITY * dt) * LINEAR_FRICTION,
         ball_vx := ball_vx b * LINEAR_FRICTION,
         ball_x := ball_x b + (ball_vx b * LINEAR_FRICTION) * dt,
         ball_y := ball_y b + ((ball_vy b + GRAVITY * dt) * LINEAR_FRICTION) * dt\<rparr>"
    by (simp add: apply_motion_def Let_def)
  have u: "Ball_update dt b
     = (case resolve_collision (grow_radius dt (apply_motion dt b)) of
          Inl e \<Rightarrow> Inl e
        | Inr b' \<Rightarrow> Inr (record_trails dt b'))"
    by (simp add: Ball_update_def)
  have g: "ball_x (grow_radius dt c) = ball_x c" "ball_y (grow_radius dt c) = ball_y c"
          "ball_vx (grow_radius dt c) = ball_vx c" "ball_vy (grow_radius dt c) = ball_vy c" for c
    by (simp_all add: grow_radius_def Let_def)
  show ?thesis
    unfolding g u unfolding m by simp
qed

section \<open>Ball: one update\<close>

subsection \<open>The two branches of the collision test\<close>

lemma collision_normal_eq:
  "collision_normal dx dy dst = Inr (if dst = 0 then (1, 0) else (dx / dst, dy / dst))"
  by (simp add: collision_normal_def float_div_def)

lemma Ball_color_valid:
  "valid_color_index b \<Longrightarrow>
     Ball_color b = Inr (COLORS ! nat (if color_index b < 0
                                      then color_index b + int (length COLORS)
                                      else color_index b))"
  by (simp add: valid_color_index_def Ball_color_def list_getitem_def Let_def)

lemma resolve_collision_miss:
  "\<not> hits_boundary m \<Longrightarrow> resolve_collision m = Inr m"
  by (simp add: resolve_collision_def hits_boundary_def center_dist_def max_dist_def Let_def)

lemma resolve_collision_hit:
  assumes hit: "hits_boundary m" and col: "Ball_color m = Inr col"
  shows "resolve_collision m =
           Inr (Ball_cycle_color
             ((Ball_reflect_on_circle (fst (unit_normal m)) (snd (unit_normal m))
                (m\<lparr>ball_x := arena_cx (ball_arena m) + fst (unit_normal m) * max_dist m,
                   ball_y := arena_cy (ball_arena m) + snd (unit_normal m) * max_dist m\<rparr>))
              \<lparr>trails := TrailManager_add_impact
                  (arena_cx (ball_arena m) + fst (unit_normal m) * max_dist m,
                   arena_cy (ball_arena m) + snd (unit_normal m) * max_dist m) col (trails m)\<rparr>))"
proof -
  have c: "Ball_color (Ball_reflect_on_circle nx ny (m\<lparr>ball_x := u, ball_y := v\<rparr>)) = Inr col"
    for nx ny u v
    using col by (simp add: Ball_color_def Ball_reflect_on_circle_def Let_def)
  have r: "ball_x (Ball_reflect_on_circle nx ny c) = ball_x c"
          "ball_y (Ball_reflect_on_circle nx ny c) = ball_y c"
          "trails (Ball_reflect_on_circle nx ny c) = trails c" for nx ny c
    by (simp_all add: Ball_reflect_on_circle_def Let_def)
  from hit show ?thesis
    unfolding resolve_collision_def Let_def collision_normal_eq
    by (simp add: c r hits_boundary_def center_dist_def max_dist_def unit_normal_def)
qed

lemma moved_fields:
  "ball_arena (grow_radius dt (apply_motion dt b)) = ball_arena b"
  "color_index (grow_radius dt (apply_motion dt b)) = color_index b"
  "trails (grow_radius dt (apply_motion dt b)) = trails b"
  "ball_radius (grow_radius dt (apply_motion dt b)) = ball_radius (grow_radius dt b)"
  by (simp_all add: grow_radius_def apply_motion_def Let_def)

lemma valid_color_index_moved:
  "valid_color_index (grow_radius dt (apply_motion dt b)) = valid_color_index b"
  by (simp add: valid_color_index_def moved_fields)

lemma Ball_update_miss:
  "\<not> hits_boundary (grow_radius dt (apply_motion dt b)) \<Longrightarrow>
     Ball_update dt b = Inr (record_trails dt (grow_radius dt (apply_motion dt b)))"
  by (simp add: Ball_update_def resolve_collision_miss)

lemma Ball_update_hit:
  assumes "hits_boundary (grow_radius dt (apply_motion dt b))" and "valid_color_index b"
  shows "\<exists>b'. Ball_update dt b = Inr b'
           \<and> ball_x b' = arena_cx (ball_arena b)
                 + fst (unit_normal (grow_radius dt (apply_motion dt b)))
                   * max_dist (grow_radius dt (apply_motion dt b))
           \<and> ball_y b' = arena_cy (ball_arena b)
                 + snd (unit_normal (grow_radius dt (apply_motion dt b)))
                   * max_dist (grow_radius dt (apply_motion dt b))
           \<and> ball_radius b' = ball_radius (grow_radius dt b)
           \<and> ball_arena b' = ball_arena b
           \<and> color_index b' = (color_index b + 1) mod int (length COLORS)"
proof -
  let ?m = "grow_radius dt (apply_motion dt b)"
  have "valid_color_index ?m"
    using assms(2) by (simp add: valid_color_index_moved)
  from resolve_collision_hit [OF assms(1) Ball_color_valid [OF this]]
  show ?thesis
    by (simp add: Ball_update_def record_trails_def Ball_cycle_color_def
                  Ball_reflect_on_circle_def Let_def moved_fields)
qed

subsection \<open>A collision of the application's ball\<close>

lemma hypot_gt_iff: "0 \<le> r \<Longrightarrow> r < hypot a c \<longleftrightarrow> r * r < a * a + c * c"
  using hypot_le_iff [of r a c] by auto

lemma edge_ball_hits: "hits_boundary (grow_radius (1 / 10) (apply_motion (1 / 10) edge_ball))"
proof -
  have d: "center_dist (grow_radius (1 / 10) (apply_motion (1 / 10) edge_ball))
             = hypot (10359 / 40) (999 / 500)"
    by (simp add: center_dist_def grow_radius_def apply_motion_def
                  edge_ball_def app_ball_def app_arena_def BALL_BASE_RADIUS_def Let_def
                  BALL_MAX_RATIO_def GROWTH_PER_SEC_def GRAVITY_def LINEAR_FRICTION_def)
  have m: "max_dist (grow_radius (1 / 10) (apply_motion (1 / 10) edge_ball)) = 2338 / 10"
    by (simp add: max_dist_def grow_radius_def apply_motion_def
                  edge_ball_def app_ball_def app_arena_def BALL_BASE_RADIUS_def Let_def
                  BALL_MAX_RATIO_def GROWTH_PER_SEC_def)
  have "2338 / 10 < hypot (10359 / 40) (999 / 500)"
    by (subst hypot_gt_iff) simp_all
  then show ?thesis
    unfolding hits_boundary_def d m .
qed

section \<open>Ball: runs of updates\<close>

lemma Ball_update_step:
  assumes "valid_color_index b"
  shows "\<exists>b'. Ball_update dt b = Inr b'
           \<and> ball_radius b' = ball_radius (grow_radius dt b)
           \<and> ball_arena b' = ball_arena b
           \<and> color_index b' =
               (if hits_boundary (grow_radius dt (apply_motion dt b))
                then (color_index b + 1) mod int (length COLORS) else color_index b)"
proof (cases "hits_boundary (grow_radius dt (apply_motion dt b))")
  case True
  from Ball_update_hit [OF True assms] True show ?thesis
    by auto
next
  case False
  from Ball_update_miss [OF False] False show ?thesis
    by (simp add: record_trails_def moved_fields)
qed


subsection \<open>The radius\<close>




subsection \<open>The colour index\<close>

lemma cycle_color_funpow:
  "color_index ((Ball_cycle_color ^^ n) b) =
     (if n = 0 then color_index b else (color_index b + int n) mod int (length COLORS))"
proof (induction n)
  case 0
  then show ?case by simp
next
  case (Suc n)
  then show ?case
    by (simp add: Ball_cycle_color_def mod_add_left_eq mod_add_right_eq ac_simps)
qed

text \<open>
  Claim C8. From a colour index within the palette, a run of updates ends with the index
  advanced, modulo the length of the palette, by the number of frames that took the
  collision branch: a frame without collision leaves the index alone and a frame with
  one advances it by 1 with wrap-around. Calling \<open>cycle_color\<close> \<open>n\<close> times advances it by
  \<open>n mod len(COLORS)\<close>, again with wrap-around.
\<close>

theorem color_index_counts_collisions:
  assumes "0 \<le> color_index b" and "color_index b < int (length COLORS)"
  shows "\<exists>b'. run dts b = Inr b'
           \<and> color_index b' = (color_index b + int (collisions dts b)) mod int (length COLORS)
           \<and> color_index ((Ball_cycle_color ^^ n) b)
               = (color_index b + int n mod int (length COLORS)) mod int (length COLORS)"
proof -
  have pure: "color_index ((Ball_cycle_color ^^ n) b)
               = (color_index b + int n mod int (length COLORS)) mod int (length COLORS)"
    using assms by (simp add: cycle_color_funpow mod_add_right_eq)
  have "\<exists>b'. run dts b = Inr b'
           \<and> color_index b' = (color_index b + int (collisions dts b)) mod int (length COLORS)"
    using assms
  proof (induction dts arbitrary: b)
    case Nil
    then show ?case by simp
  next
    case (Cons dt dts)
    let ?hit = "hits_boundary (grow_radius dt (apply_motion dt b))"
    have valid: "valid_color_index b"
      using Cons.prems by (simp add: valid_color_index_def)
    from Ball_update_step [OF valid, of dt] obtain b1 where
      u: "Ball_update dt b = Inr b1"
      and c1: "color_index b1 =
                 (if ?hit then (color_index b + 1) mod int (length COLORS) else color_index b)"
      by blast
    have range: "0 \<le> color_index b1" "color_index b1 < int (length COLORS)"
      using Cons.prems c1 by (simp_all add: COLORS_def)
    from Cons.IH [OF range] obtain b' where
      run: "run dts b1 = Inr b'"
      and c': "color_index b' = (color_index b1 + int (collisions dts b1)) mod int (length COLORS)"
      by blast
    have "run (dt # dts) b = Inr b'"
      using u run by simp
    moreover have "color_index b'
                     = (color_index b + int (collisions (dt # dts) b)) mod int (length COLORS)"
    proof (cases ?hit)
      case True
      then show ?thesis
        using u c' c1 by (simp add: mod_add_left_eq add.assoc)
    next
      case False
      then show ?thesis
        using u c' c1 by simp
    qed
    ultimately show ?case by blast
  qed
  with pure show ?thesis by blast
qed

theorem color_index_counts_collisions_witness:
  "0 \<le> color_index edge_ball
   \<and> color_index edge_ball < int (length COLORS)
   \<and> collisions [1 / 10] edge_ball = 1
   \<and> (\<exists>b'. run [1 / 10] edge_ball = Inr b' \<and> color_index b' = 1)
   \<and> color_index ((Ball_cycle_color ^^ 7) edge_ball) = 1"
proof -
  have lo: "0 \<le> color_index edge_ball" and hi: "color_index edge_ball < int (length COLORS)"
    by (simp_all add: edge_ball_def app_ball_def COLORS_def)
  have valid: "valid_color_index edge_ball"
    using lo hi by (simp add: valid_color_index_def)
  from Ball_update_step [OF valid, of "1 / 10"] obtain b1 where
    "Ball_update (1 / 10) edge_ball = Inr b1"
    by blast
  then have n: "collisions [1 / 10] edge_ball = 1"
    using edge_ball_hits by simp
  have zero: "color_index edge_ball = 0" and six: "int (length COLORS) = 6"
    by (simp_all add: edge_ball_def app_ball_def COLORS_def)
  from color_index_counts_collisions [OF lo hi, of "[1 / 10]" 7]
  have "(\<exists>b'. run [1 / 10] edge_ball = Inr b' \<and> color_index b' = 1)
        \<and> color_index ((Ball_cycle_color ^^ 7) edge_ball) = 1"
    unfolding n zero six by auto
  with lo hi n show ?thesis
    by blast
qed

section \<open>Ball: the degenerate normal and the ball at rest\<close>

lemma Ball_update_no_zero_division: "Ball_update dt b \<noteq> Inl ZeroDivisionError"
proof -
  let ?m = "grow_radius dt (apply_motion dt b)"
  have "resolve_collision ?m \<noteq> Inl ZeroDivisionError"
    unfolding resolve_collision_def Let_def collision_normal_eq
    by (simp add: Ball_color_def list_getitem_def Let_def split: if_splits)
  then show ?thesis
    by (auto simp: Ball_update_def split: sum.splits)
qed

text \<open>
  Claim C9. The normal computed for \<open>dist == 0\<close> is \<open>(1, 0)\<close>, the computation of the
  normal never raises, and \<open>Ball.update\<close> never raises \<open>ZeroDivisionError\<close>. When the
  moved ball is exactly on the centre and the collision branch is taken (with a colour
  index that \<open>COLORS\<close> accepts), the update returns: the position is clamped to
  \<open>center + (1, 0) * max_dist\<close> and the velocity is the reflection of the moved ball's
  velocity on the normal \<open>(1, 0)\<close>.
\<close>

theorem zero_distance_normal:
  "collision_normal dx dy 0 = Inr (1, 0)
   \<and> collision_normal dx dy dst \<noteq> Inl e
   \<and> Ball_update dt b \<noteq> Inl ZeroDivisionError
   \<and> (center_dist (grow_radius dt (apply_motion dt b)) = 0
        \<and> hits_boundary (grow_radius dt (apply_motion dt b))
        \<and> valid_color_index b \<longrightarrow>
        (\<exists>b'. Ball_update dt b = Inr b'
           \<and> ball_x b' = arena_cx (ball_arena b) + 1 * max_dist (grow_radius dt (apply_motion dt b))
           \<and> ball_y b' = arena_cy (ball_arena b) + 0 * max_dist (grow_radius dt (apply_motion dt b))
           \<and> ball_vx b' = ball_vx (Ball_reflect_on_circle 1 0 (grow_radius dt (apply_motion dt b)))
           \<and> ball_vy b' = ball_vy (Ball_reflect_on_circle 1 0 (grow_radius dt (apply_motion dt b)))))"
proof (intro conjI impI)
  show "collision_normal dx dy 0 = Inr (1, 0)"
    by (simp add: collision_normal_def)
  show "collision_normal dx dy dst \<noteq> Inl e"
    by (simp add: collision_normal_eq)
  show "Ball_update dt b \<noteq> Inl ZeroDivisionError"
    by (rule Ball_update_no_zero_division)
next
  let ?m = "grow_radius dt (apply_motion dt b)"
  assume a: "center_dist ?m = 0 \<and> hits_boundary ?m \<and> valid_color_index b"
  then have zero: "center_dist ?m = 0" and hit: "hits_boundary ?m" and valid: "valid_color_index b"
    by simp_all
  have n: "unit_normal ?m = (1, 0)"
    using zero by (simp add: unit_normal_def)
  have "valid_color_index ?m"
    using valid by (simp add: valid_color_index_moved)
  from resolve_collision_hit [OF hit Ball_color_valid [OF this]]
  show "\<exists>b'. Ball_update dt b = Inr b'
           \<and> ball_x b' = arena_cx (ball_arena b) + 1 * max_dist ?m
           \<and> ball_y b' = arena_cy (ball_arena b) + 0 * max_dist ?m
           \<and> ball_vx b' = ball_vx (Ball_reflect_on_circle 1 0 ?m)
           \<and> ball_vy b' = ball_vy (Ball_reflect_on_circle 1 0 ?m)"
    unfolding n
    by (simp add: Ball_update_def record_trails_def Ball_cycle_color_def
                  Ball_reflect_on_circle_def Let_def moved_fields)
qed

theorem zero_distance_normal_witness:
  "center_dist (grow_radius 0 (apply_motion 0 oversized_ball)) = 0
   \<and> hits_boundary (grow_radius 0 (apply_motion 0 oversized_ball))
   \<and> valid_color_index oversized_ball
   \<and> (\<exists>b'. Ball_update 0 oversized_ball = Inr b'
          \<and> ball_x b' = - 10 \<and> ball_y b' = 0
          \<and> ball_vx b' = - (3 * LINEAR_FRICTION) * RESTIUTION
          \<and> ball_vy b' = (4 * LINEAR_FRICTION) * TANGENTIAL_FRICTION)"
proof -
  let ?m = "grow_radius 0 (apply_motion 0 oversized_ball)"
  have m: "?m = oversized_ball\<lparr>ball_vx := 3 * LINEAR_FRICTION, ball_vy := 4 * LINEAR_FRICTION\<rparr>"
    by (simp add: grow_radius_def apply_motion_def oversized_ball_def Let_def BALL_MAX_RATIO_def)
  have zero: "center_dist ?m = 0"
    unfolding m by (simp add: center_dist_def oversized_ball_def hypot_def)
  have md: "max_dist ?m = - 10"
    unfolding m by (simp add: max_dist_def oversized_ball_def)
  have hit: "hits_boundary ?m"
    unfolding hits_boundary_def zero md by simp
  have valid: "valid_color_index oversized_ball"
    by (simp add: valid_color_index_def oversized_ball_def COLORS_def)
  have vx: "ball_vx (Ball_reflect_on_circle 1 0 ?m) = - (3 * LINEAR_FRICTION) * RESTIUTION"
   and vy: "ball_vy (Ball_reflect_on_circle 1 0 ?m) = (4 * LINEAR_FRICTION) * TANGENTIAL_FRICTION"
    unfolding m by (simp_all add: Ball_reflect_on_circle_def Let_def oversized_ball_def)
  have c: "arena_cx (ball_arena oversized_ball) = 0" "arena_cy (ball_arena oversized_ball) = 0"
    by (simp_all add: oversized_ball_def)
  from zero_distance_normal [of 0 0 0 ZeroDivisionError 0 oversized_ball] zero hit valid
  have "\<exists>b'. Ball_update 0 oversized_ball = Inr b'
          \<and> ball_x b' = - 10 \<and> ball_y b' = 0
          \<and> ball_vx b' = - (3 * LINEAR_FRICTION) * RESTIUTION
          \<and> ball_vy b' = (4 * LINEAR_FRICTION) * TANGENTIAL_FRICTION"
    unfolding vx vy md c by simp
  with zero hit valid show ?thesis
    by blast
qed

subsection \<open>A ball at rest on the centre\<close>

lemma rest_ball_moved:
  "grow_radius (1 / 100) (apply_motion (1 / 100) rest_ball)
     = rest_ball\<lparr>ball_vy := 1998 / 1000, ball_y := 300 + 1998 / 100000,
                  ball_radius := 15 + 12 / 100\<rparr>"
  by (simp add: grow_radius_def apply_motion_def rest_ball_def app_ball_def app_arena_def
                Let_def BALL_MAX_RATIO_def BALL_BASE_RADIUS_def GROWTH_PER_SEC_def GRAVITY_def
                LINEAR_FRICTION_def)

lemma rest_ball_misses:
  "\<not> hits_boundary (grow_radius (1 / 100) (apply_motion (1 / 100) rest_ball))"
proof -
  have "hypot 0 (1998 / 100000) \<le> 250 - (15 + 12 / 100)"
    by (subst hypot_le_iff) simp_all
  then show ?thesis
    unfolding rest_ball_moved
    by (simp add: hits_boundary_def center_dist_def max_dist_def rest_ball_def app_ball_def
                  app_arena_def)
qed

text \<open>
  Claim C5, as stated, fails: air friction multiplies the velocity after gravity is
  added, so from rest \<open>vy\<close> ends at \<open>GRAVITY * dt * LINEAR_FRICTION\<close>. For \<open>dt = 0.01\<close>
  the update of the resting ball returns with \<open>vy = 1.998\<close>, while
  \<open>GRAVITY * dt = 2\<close>.
\<close>

theorem rest_ball_velocity_counterexample:
  "Ball_update (1 / 100) rest_ball
     = Inr (rest_ball\<lparr>ball_vy := 1998 / 1000, ball_y := 300 + 1998 / 100000,
                       ball_radius := 15 + 12 / 100,
                       trails := \<lparr>motion_trail = [(400, 300 + 1998 / 100000)], impacts = []\<rparr>\<rparr>)
   \<and> ball_vy rest_ball = 0
   \<and> GRAVITY * (1 / 100) = 2
   \<and> 1998 / 1000 - ball_vy rest_ball \<noteq> GRAVITY * (1 / 100)"
proof -
  have "Ball_update (1 / 100) rest_ball
     = Inr (record_trails (1 / 100) (grow_radius (1 / 100) (apply_motion (1 / 100) rest_ball)))"
    by (rule Ball_update_miss [OF rest_ball_misses])
  then have "Ball_update (1 / 100) rest_ball
     = Inr (rest_ball\<lparr>ball_vy := 1998 / 1000, ball_y := 300 + 1998 / 100000,
                       ball_radius := 15 + 12 / 100,
                       trails := \<lparr>motion_trail = [(400, 300 + 1998 / 100000)], impacts = []\<rparr>\<rparr>)"
    unfolding rest_ball_moved
    by (simp add: record_trails_def TrailManager_update_def TrailManager_push_position_def
                  deque_append_def TRAIL_LEN_def rest_ball_def app_ball_def TrailManager_init_def)
  moreover have "ball_vy rest_ball = 0"
    by (simp add: rest_ball_def)
  ultimately show ?thesis
    by (simp add: GRAVITY_def)
qed

text \<open>
  Claim C5, amended. For a ball on the centre of its arena with zero velocity and a time
  step \<open>dt > 0\<close> small enough that the fall \<open>GRAVITY * LINEAR_FRICTION * dt * dt\<close> stays
  within \<open>arena.radius - radius\<close> (radius after growth), the update returns and takes no
  collision branch: \<open>vy\<close> has grown by exactly \<open>GRAVITY * dt * LINEAR_FRICTION\<close>, \<open>vx\<close> is
  still zero, the position has moved by the new velocity times \<open>dt\<close>, the colour index is
  unchanged and no impact was added.
\<close>

theorem rest_ball_first_frame:
  assumes centre: "ball_x b = arena_cx (ball_arena b)" "ball_y b = arena_cy (ball_arena b)"
      and rest: "ball_vx b = 0" "ball_vy b = 0"
      and dt: "0 < dt"
      and small: "GRAVITY * LINEAR_FRICTION * dt * dt
                    \<le> arena_radius (ball_arena b) - ball_radius (grow_radius dt b)"
  shows "\<exists>b'. Ball_update dt b = Inr b'
           \<and> ball_vy b' = ball_vy b + GRAVITY * dt * LINEAR_FRICTION
           \<and> ball_vx b' = 0
           \<and> ball_x b' = ball_x b
           \<and> ball_y b' = ball_y b + (GRAVITY * dt * LINEAR_FRICTION) * dt
           \<and> \<not> hits_boundary (grow_radius dt (apply_motion dt b))
           \<and> color_index b' = color_index b
           \<and> impacts (trails b') = alive_after dt (impacts (trails b))"
proof -
  let ?m = "grow_radius dt (apply_motion dt b)"
  have g: "ball_x (grow_radius dt c) = ball_x c" "ball_y (grow_radius dt c) = ball_y c"
          "ball_vx (grow_radius dt c) = ball_vx c" "ball_vy (grow_radius dt c) = ball_vy c" for c
    by (simp_all add: grow_radius_def Let_def)
  have mx: "ball_x ?m = ball_x b" and mvx: "ball_vx ?m = 0"
    and mvy: "ball_vy ?m = GRAVITY * dt * LINEAR_FRICTION"
    and my: "ball_y ?m = ball_y b + (GRAVITY * dt * LINEAR_FRICTION) * dt"
    unfolding g using rest by (simp_all add: apply_motion_def Let_def)
  have fall: "0 \<le> GRAVITY * dt * LINEAR_FRICTION * dt"
    using dt by (simp add: GRAVITY_def LINEAR_FRICTION_def)
  have "center_dist ?m = hypot 0 (GRAVITY * dt * LINEAR_FRICTION * dt)"
    by (simp add: center_dist_def mx my moved_fields centre)
  also have "\<dots> = GRAVITY * dt * LINEAR_FRICTION * dt"
    using fall by (simp add: hypot_def)
  finally have "center_dist ?m \<le> max_dist ?m"
    using small by (simp add: max_dist_def moved_fields ac_simps)
  then have miss: "\<not> hits_boundary ?m"
    by (simp add: hits_boundary_def)
  have "Ball_update dt b = Inr (record_trails dt ?m)"
    by (rule Ball_update_miss [OF miss])
  moreover have "impacts (trails (record_trails dt ?m)) = alive_after dt (impacts (trails b))"
    by (simp add: record_trails_def TrailManager_update_def TrailManager_push_position_def
                  moved_fields)
  moreover have "ball_vy (record_trails dt ?m) = ball_vy b + GRAVITY * dt * LINEAR_FRICTION"
                "ball_vx (record_trails dt ?m) = 0"
                "ball_x (record_trails dt ?m) = ball_x b"
                "ball_y (record_trails dt ?m) = ball_y b + (GRAVITY * dt * LINEAR_FRICTION) * dt"
                "color_index (record_trails dt ?m) = color_index b"
    using rest by (simp_all add: record_trails_def mx my mvx mvy moved_fields)
  ultimately show ?thesis
    using miss by blast
qed

theorem rest_ball_first_frame_witness:
  "ball_x rest_ball = arena_cx (ball_arena rest_ball)
   \<and> ball_y rest_ball = arena_cy (ball_arena rest_ball)
   \<and> ball_vx rest_ball = 0 \<and> ball_vy rest_ball = 0
   \<and> (0 :: real) < 1 / 100
   \<and> GRAVITY * LINEAR_FRICTION * (1 / 100) * (1 / 100)
        \<le> arena_radius (ball_arena rest_ball) - ball_radius (grow_radius (1 / 100) rest_ball)
   \<and> (\<exists>b'. Ball_update (1 / 100) rest_ball = Inr b'
          \<and> ball_vy b' = 1998 / 1000 \<and> ball_vx b' = 0
          \<and> ball_x b' = 400 \<and> ball_y b' = 300 + 1998 / 100000
          \<and> color_index b' = 0 \<and> impacts (trails b') = [])"
proof -
  have centre: "ball_x rest_ball = arena_cx (ball_arena rest_ball)"
               "ball_y rest_ball = arena_cy (ball_arena rest_ball)"
    and rest: "ball_vx rest_ball = 0" "ball_vy rest_ball = 0"
    by (simp_all add: rest_ball_def app_ball_def app_arena_def)
  have dt: "(0 :: real) < 1 / 100"
    by simp
  have small: "GRAVITY * LINEAR_FRICTION * (1 / 100) * (1 / 100)
        \<le> arena_radius (ball_arena rest_ball) - ball_radius (grow_radius (1 / 100) rest_ball)"
    by (simp add: grow_radius_def rest_ball_def app_ball_def app_arena_def Let_def
                  BALL_MAX_RATIO_def BALL_BASE_RADIUS_def GROWTH_PER_SEC_def GRAVITY_def
                  LINEAR_FRICTION_def)
  have vals: "ball_x rest_ball = 400" "ball_y rest_ball = 300" "color_index rest_ball = 0"
             "impacts (trails rest_ball) = []"
             "GRAVITY * (1 / 100) * LINEAR_FRICTION = 1998 / 1000"
    by (simp_all add: rest_ball_def app_ball_def TrailManager_init_def GRAVITY_def
                      LINEAR_FRICTION_def)
  from rest_ball_first_frame [OF centre rest dt small]
  have "\<exists>b'. Ball_update (1 / 100) rest_ball = Inr b'
          \<and> ball_vy b' = 1998 / 1000 \<and> ball_vx b' = 0
          \<and> ball_x b' = 400 \<and> ball_y b' = 300 + 1998 / 100000
          \<and> color_index b' = 0 \<and> impacts (trails b') = []"
    unfolding vals rest by auto
  with centre rest dt small show ?thesis
    by blast
qed

section \<open>Double precision: rounding\<close>

lemma round_half_even_near: "\<bar>of_int (round_half_even y) - y\<bar> \<le> 1 / 2"
  unfolding round_half_even_def Let_def by (auto simp: abs_le_iff; linarith)

lemma round_half_even_ge_floor: "\<lfloor>y\<rfloor> \<le> round_half_even y"
  by (simp add: round_half_even_def Let_def)

lemma round_half_even_le_floor: "round_half_even y \<le> \<lfloor>y\<rfloor> + 1"
  by (simp add: round_half_even_def Let_def)

lemma fl_exponent:
  assumes "x \<noteq> 0"
  defines "e \<equiv> \<lfloor>log 2 \<bar>x\<bar>\<rfloor> - 52"
  shows "2 ^ 52 * 2 powr of_int e \<le> \<bar>x\<bar>" and "\<bar>x\<bar> < 2 ^ 53 * 2 powr of_int e"
    and "fl x = of_int (round_half_even (x / 2 powr of_int e)) * 2 powr of_int e"
proof -
  have pos: "0 < \<bar>x\<bar>" using assms(1) by simp
  have "\<lfloor>log 2 \<bar>x\<bar>\<rfloor> = e + 52" by (simp add: e_def)
  then have b: "2 powr of_int (e + 52) \<le> \<bar>x\<bar> \<and> \<bar>x\<bar> < 2 powr (of_int (e + 52) + 1)"
    using floor_log_eq_powr_iff [OF pos, of 2 "e + 52"] by simp
  have p1: "2 powr (of_int (e + 52) :: real) = 2 ^ 52 * 2 powr of_int e"
    by (simp add: powr_add)
  have p2: "2 powr (of_int (e + 52) + 1 :: real) = 2 ^ 53 * 2 powr of_int e"
    by (simp add: powr_add)
  from b show "2 ^ 52 * 2 powr of_int e \<le> \<bar>x\<bar>" and "\<bar>x\<bar> < 2 ^ 53 * 2 powr of_int e"
    unfolding p1 p2 by simp_all
  show "fl x = of_int (round_half_even (x / 2 powr of_int e)) * 2 powr of_int e"
    using assms(1) by (simp add: fl_def e_def Let_def)
qed

lemma fl_err: "\<bar>fl x - x\<bar> \<le> \<bar>x\<bar> / 2 ^ 53"
proof (cases "x = 0")
  case True
  then show ?thesis by (simp add: fl_def)
next
  case False
  define e where "e = \<lfloor>log 2 \<bar>x\<bar>\<rfloor> - 52"
  define p :: real where "p = 2 powr of_int e"
  have p: "0 < p" by (simp add: p_def)
  note f = fl_exponent [OF False, folded e_def, folded p_def]
  have "fl x - x = (of_int (round_half_even (x / p)) - x / p) * p"
    using p by (simp add: f(3) algebra_simps)
  then have "\<bar>fl x - x\<bar> = \<bar>of_int (round_half_even (x / p)) - x / p\<bar> * p"
    using p by (simp add: abs_mult)
  also have "\<dots> \<le> (1 / 2) * p"
    using p round_half_even_near [of "x / p"] by (intro mult_right_mono) simp_all
  also have "\<dots> \<le> \<bar>x\<bar> / 2 ^ 53"
    using f(1) by simp
  finally show ?thesis .
qed

lemma unit_roundoff_pos: "0 < unit_roundoff"
  by (simp add: unit_roundoff_def)

lemma fl_near: "\<bar>fl x - x\<bar> \<le> unit_roundoff * \<bar>x\<bar>"
  using fl_err [of x] by (simp add: unit_roundoff_def)

lemma fl_pos: "0 < x \<Longrightarrow> 0 < fl x"
proof -
  assume x: "0 < x"
  then have nz: "x \<noteq> 0" by simp
  define e where "e = \<lfloor>log 2 \<bar>x\<bar>\<rfloor> - 52"
  define p :: real where "p = 2 powr of_int e"
  have p: "0 < p" by (simp add: p_def)
  note f = fl_exponent [OF nz, folded e_def, folded p_def]
  have "2 ^ 52 \<le> x / p"
    using f(1) x p by (simp add: pos_le_divide_eq)
  then have "(2 :: int) ^ 52 \<le> \<lfloor>x / p\<rfloor>"
    by (simp add: le_floor_iff)
  moreover have "(0 :: int) < 2 ^ 52" by simp
  ultimately have "0 < round_half_even (x / p)"
    using round_half_even_ge_floor [of "x / p"] by linarith
  with p show ?thesis by (simp add: f(3))
qed

lemma fl_neg: "x < 0 \<Longrightarrow> fl x < 0"
proof -
  assume x: "x < 0"
  then have nz: "x \<noteq> 0" by simp
  define e where "e = \<lfloor>log 2 \<bar>x\<bar>\<rfloor> - 52"
  define p :: real where "p = 2 powr of_int e"
  have p: "0 < p" by (simp add: p_def)
  note f = fl_exponent [OF nz, folded e_def, folded p_def]
  have "x / p \<le> - (2 ^ 52)"
    using f(1) x p by (simp add: pos_divide_le_eq)
  then have "\<lfloor>x / p\<rfloor> \<le> - ((2 :: int) ^ 52)"
    by (simp add: floor_le_iff)
  moreover have "(1 :: int) < 2 ^ 52" by simp
  ultimately have "round_half_even (x / p) < 0"
    using round_half_even_le_floor [of "x / p"] by linarith
  with p show ?thesis by (simp add: f(3) mult_neg_pos)
qed

lemma fl_zero: "fl 0 = 0"
  by (simp add: fl_def)

lemma fl_pos_iff: "0 < fl x \<longleftrightarrow> 0 < x"
  using fl_pos [of x] fl_neg [of x] fl_zero by (cases "x = 0"; cases "0 < x") auto

lemma fl_nonneg: "0 \<le> x \<Longrightarrow> 0 \<le> fl x"
  using fl_pos [of x] fl_zero by (cases "x = 0") auto

lemma fl_eqI:
  assumes lo: "2 ^ 52 \<le> \<bar>x\<bar> * 2 ^ k" and hi: "\<bar>x\<bar> * 2 ^ k < 2 ^ 53"
    and r: "round_half_even (x * 2 ^ k) = n"
  shows "fl x = of_int n / 2 ^ k"
proof -
  have nz: "x \<noteq> 0" using lo by auto
  then have pos: "0 < \<bar>x\<bar>" by simp
  have q: "2 powr (52 - real k) = (2 :: real) ^ 52 / 2 ^ k"
    by (simp add: powr_diff powr_realpow)
  have q1: "2 powr (53 - real k) = (2 :: real) ^ 53 / 2 ^ k"
    by (simp add: powr_diff powr_realpow)
  have "2 powr (52 - real k) \<le> \<bar>x\<bar> \<and> \<bar>x\<bar> < 2 powr (53 - real k)"
    unfolding q q1 using lo hi by (simp add: pos_divide_le_eq pos_less_divide_eq)
  then have "\<lfloor>log 2 \<bar>x\<bar>\<rfloor> = 52 - int k"
    using floor_log_eq_powr_iff [OF pos, of 2 "52 - int k"] by (simp add: algebra_simps)
  then have e: "\<lfloor>log 2 \<bar>x\<bar>\<rfloor> - 52 = - int k" by simp
  have p: "2 powr - real k = (1 :: real) / 2 ^ k"
    by (simp add: powr_minus powr_realpow inverse_eq_divide)
  show ?thesis
    using nz r by (simp add: fl_def e p Let_def)
qed

lemma fl_sqrt_eqI:
  assumes n: "2 ^ 52 < n" "n < 2 ^ 53"
    and lo: "(2 * of_int n - 1) ^ 2 < 4 * (q * 4 ^ k)"
    and hi: "4 * (q * 4 ^ k) < (2 * of_int n + 1) ^ 2"
  shows "fl (sqrt q) = of_int n / 2 ^ k"
proof -
  define s where "s = sqrt q * 2 ^ k"
  have "(2 :: int) ^ 52 + 1 \<le> n" and "n + 1 \<le> (2 :: int) ^ 53"
    using n by simp_all
  then have "real_of_int (2 ^ 52 + 1) \<le> real_of_int n" and "real_of_int (n + 1) \<le> real_of_int (2 ^ 53)"
    by (simp_all only: of_int_le_iff)
  then have nr: "(2 :: real) ^ 52 + 1 \<le> of_int n" "real_of_int n + 1 \<le> 2 ^ 53"
    by simp_all
  have "(0 :: real) \<le> 2 ^ 52"
    by simp
  with nr(1) have npos: "0 < 2 * real_of_int n - 1"
    by linarith
  have "0 \<le> (2 * real_of_int n - 1) ^ 2"
    by simp
  with lo have "0 < q * 4 ^ k"
    by linarith
  then have q: "0 < q"
    by (simp add: zero_less_mult_iff)
  have "(2 * s) ^ 2 = 4 * (sqrt q ^ 2 * (2 ^ k) ^ 2)"
    by (simp add: s_def power_mult_distrib)
  also have "(2 ^ k) ^ 2 = (4 :: real) ^ k"
    by (simp add: power2_eq_square power_mult_distrib [symmetric])
  also have "sqrt q ^ 2 = q"
    using q by simp
  finally have s2: "(2 * s) ^ 2 = 4 * (q * 4 ^ k)" .
  have spos: "0 < 2 * s"
    using q by (simp add: s_def)
  have a: "2 * of_int n - 1 < 2 * s"
  proof (rule power2_less_imp_less)
    show "(2 * real_of_int n - 1)\<^sup>2 < (2 * s)\<^sup>2" unfolding s2 by (rule lo)
    show "0 \<le> 2 * s" using spos by simp
  qed
  have b: "2 * s < 2 * of_int n + 1"
  proof (rule power2_less_imp_less)
    show "(2 * s)\<^sup>2 < (2 * real_of_int n + 1)\<^sup>2" unfolding s2 by (rule hi)
    show "0 \<le> 2 * real_of_int n + 1" using npos by simp
  qed
  have r: "round_half_even s = n"
  proof (cases "s < of_int n")
    case True
    with a have "\<lfloor>s\<rfloor> = n - 1"
      by (intro floor_unique) simp_all
    with a True show ?thesis
      by (simp add: round_half_even_def)
  next
    case False
    with b have "\<lfloor>s\<rfloor> = n"
      by (intro floor_unique) simp_all
    with b False show ?thesis
      by (simp add: round_half_even_def)
  qed
  have "2 ^ 52 \<le> \<bar>sqrt q\<bar> * 2 ^ k" and "\<bar>sqrt q\<bar> * 2 ^ k < 2 ^ 53"
    using a b nr q unfolding s_def by simp_all
  from fl_eqI [OF this] r show ?thesis
    by (simp add: s_def)
qed

subsection \<open>Bounds used for the clamp\<close>

lemma hypot_sq: "hypot a c = sqrt (a\<^sup>2 + c\<^sup>2)"
  by (simp add: hypot_def power2_eq_square)

lemma hypot_mono: "\<bar>a\<bar> \<le> \<bar>a'\<bar> \<Longrightarrow> \<bar>c\<bar> \<le> \<bar>c'\<bar> \<Longrightarrow> hypot a c \<le> hypot a' c'"
  unfolding hypot_sq by (intro real_sqrt_le_mono add_mono) (simp_all add: abs_le_square_iff)

lemma hypot_triangle: "hypot (a + a') (c + c') \<le> hypot a c + hypot a' c'"
  unfolding hypot_sq by (rule real_sqrt_sum_squares_triangle_ineq)

lemma hypot_le_sum_abs: "hypot a c \<le> \<bar>a\<bar> + \<bar>c\<bar>"
  unfolding hypot_sq by (rule sqrt_sum_squares_le_sum_abs)

lemma abs_le_hypot: "\<bar>a\<bar> \<le> hypot a c" "\<bar>c\<bar> \<le> hypot a c"
proof -
  have "hypot a 0 \<le> hypot a c" "hypot 0 c \<le> hypot a c"
    by (rule hypot_mono; simp)+
  then show "\<bar>a\<bar> \<le> hypot a c" "\<bar>c\<bar> \<le> hypot a c"
    by (simp_all add: hypot_def)
qed

lemma hypot_scale_abs: "hypot (f * a) (f * c) = \<bar>f\<bar> * hypot a c"
proof -
  have "(f * a) * (f * a) + (f * c) * (f * c) = (f * f) * (a * a + c * c)"
    by (simp add: algebra_simps)
  then show ?thesis
    by (simp add: hypot_def real_sqrt_mult)
qed

lemma fl_abs_le: "\<bar>fl x\<bar> \<le> (1 + unit_roundoff) * \<bar>x\<bar>"
  using fl_near [of x] by (simp add: algebra_simps)

lemma fl_abs_ge: "(1 - unit_roundoff) * \<bar>x\<bar> \<le> \<bar>fl x\<bar>"
  using fl_near [of x] by (simp add: algebra_simps)

lemma roundoff_miss: "1 + unit_roundoff \<le> (1 + 8 * unit_roundoff) * (1 - unit_roundoff)\<^sup>2"
  by (simp add: unit_roundoff_def power2_eq_square)

lemma roundoff_hit:
  "(1 + 2 * unit_roundoff) * (1 + unit_roundoff) ^ 3 \<le> (1 + 8 * unit_roundoff) * (1 - unit_roundoff)"
  by (simp add: unit_roundoff_def power3_eq_cube)

lemma unit_roundoff_lt_1: "unit_roundoff < 1"
  by (simp add: unit_roundoff_def)

section \<open>TrailManager in double precision\<close>

lemma fl_6_10: "fl (6 / 10) = 5404319552844595 / 9007199254740992"
  using fl_eqI [of "6 / 10" 53 5404319552844595] by (simp add: round_half_even_def)

lemma fl_7_100: "fl (7 / 100) = 1261007895663739 / 18014398509481984"
  using fl_eqI [of "7 / 100" 56 5044031582654956] by (simp add: round_half_even_def)

lemma fl_23_100: "fl (23 / 100) = 8286623314361713 / 36028797018963968"
  using fl_eqI [of "23 / 100" 55 8286623314361713] by (simp add: round_half_even_def)

lemma fl_3_10: "fl (3 / 10) = 5404319552844595 / 18014398509481984"
  using fl_eqI [of "3 / 10" 54 5404319552844595] by (simp add: round_half_even_def)

lemma life_after_1:
  "fl (5404319552844595 / 9007199254740992 - 1261007895663739 / 18014398509481984)
     = 2386907802506363 / 4503599627370496"
  using fl_eqI [of "5404319552844595 / 9007199254740992 - 1261007895663739 / 18014398509481984"
                   53 4773815605012726]
  by (simp add: round_half_even_def)

lemma life_after_2:
  "fl (2386907802506363 / 4503599627370496 - 8286623314361713 / 36028797018963968)
     = 1351079888211149 / 4503599627370496"
  using fl_eqI [of "2386907802506363 / 4503599627370496 - 8286623314361713 / 36028797018963968"
                   54 5404319552844596]
  by (simp add: round_half_even_def)

lemma life_after_3:
  "fl (1351079888211149 / 4503599627370496 - 5404319552844595 / 18014398509481984)
     = 1 / 18014398509481984"
  using fl_eqI [of "1351079888211149 / 4503599627370496 - 5404319552844595 / 18014398509481984"
                   106 4503599627370496]
  by (simp add: round_half_even_def)

lemma IMPACT_LIFETIME_fl_eq: "IMPACT_LIFETIME_fl = 5404319552844595 / 9007199254740992"
  unfolding IMPACT_LIFETIME_fl_def by (rule fl_6_10)

lemma alive_after_fl_single:
  "alive_after_fl dt [(p, l, c)] = (if 0 < fl (l - dt) then [(p, fl (l - dt), c)] else [])"
  by (simp add: Let_def)

lemma total_1:
  "fl (1261007895663739 / 18014398509481984 + 8286623314361713 / 36028797018963968)
     = 1351079888211149 / 4503599627370496"
  using fl_eqI [of "1261007895663739 / 18014398509481984 + 8286623314361713 / 36028797018963968"
                   54 5404319552844596]
  by (simp add: round_half_even_def)

lemma total_2:
  "fl (1351079888211149 / 4503599627370496 + 5404319552844595 / 18014398509481984)
     = 1351079888211149 / 2251799813685248"
  using fl_eqI [of "1351079888211149 / 4503599627370496 + 5404319552844595 / 18014398509481984"
                   53 5404319552844596]
  by (simp add: round_half_even_def)

text \<open>
  Claim C7, as stated, fails in double arithmetic. An impact is added and the manager is
  updated by \<open>0.07\<close>, \<open>0.23\<close> and \<open>0.3\<close> seconds. These three doubles add up to more than
  the double \<open>0.6\<close>, exactly and as Python adds them, but the three rounded subtractions
  leave a life of \<open>2^-54\<close>, which is above zero: the impact is still in the list.
\<close>

theorem impact_outlives_lifetime_counterexample:
  "impacts (update_all_fl [fl (7 / 100), fl (23 / 100), fl (3 / 10)]
       (TrailManager_add_impact_fl (1, 2) (255, 0, 0) TrailManager_init))
     = [((1, 2), 1 / 18014398509481984, (255, 0, 0))]
   \<and> IMPACT_LIFETIME_fl < fl (7 / 100) + fl (23 / 100) + fl (3 / 10)
   \<and> IMPACT_LIFETIME_fl < fl (fl (fl (7 / 100) + fl (23 / 100)) + fl (3 / 10))"
proof (intro conjI)
  have "alive_after_fl (fl (3 / 10)) (alive_after_fl (fl (23 / 100))
          (alive_after_fl (fl (7 / 100)) [((1, 2), IMPACT_LIFETIME_fl, (255, 0, 0))]))
        = [((1, 2), 1 / 18014398509481984, (255, 0, 0))]"
    unfolding alive_after_fl_single IMPACT_LIFETIME_fl_eq fl_7_100 life_after_1
    apply (simp only: zero_less_divide_iff zero_less_numeral simp_thms if_True)
    unfolding alive_after_fl_single fl_23_100 life_after_2
    apply (simp only: zero_less_divide_iff zero_less_numeral simp_thms if_True)
    unfolding alive_after_fl_single fl_3_10 life_after_3
    by simp
  then show "impacts (update_all_fl [fl (7 / 100), fl (23 / 100), fl (3 / 10)]
       (TrailManager_add_impact_fl (1, 2) (255, 0, 0) TrailManager_init))
     = [((1, 2), 1 / 18014398509481984, (255, 0, 0))]"
    by (simp add: TrailManager_add_impact_fl_def TrailManager_update_fl_def TrailManager_init_def)
  show "IMPACT_LIFETIME_fl < fl (7 / 100) + fl (23 / 100) + fl (3 / 10)"
    unfolding IMPACT_LIFETIME_fl_eq fl_7_100 fl_23_100 fl_3_10 by simp
  show "IMPACT_LIFETIME_fl < fl (fl (fl (7 / 100) + fl (23 / 100)) + fl (3 / 10))"
    unfolding IMPACT_LIFETIME_fl_eq fl_7_100 fl_23_100 fl_3_10 total_1 total_2 by simp
qed

lemma fl_le_scaled: "0 < x \<Longrightarrow> fl x \<le> x * (1 + unit_roundoff)"
proof -
  assume "0 < x"
  with fl_near [of x] have "fl x - x \<le> unit_roundoff * x"
    by (simp add: abs_le_iff)
  then show ?thesis
    by (simp add: algebra_simps)
qed

lemma alive_after_fl_filter:
  "alive_after_fl dt imps =
     map (\<lambda>(pos, life, col). (pos, fl (life - dt), col))
         (filter (\<lambda>(pos, life, col). fl (life - dt) > 0) imps)"
  by (induction dt imps rule: alive_after_fl.induct) (simp_all add: Let_def)

lemma alive_after_fl_member:
  "(p, l, c) \<in> set (alive_after_fl dt imps) \<longleftrightarrow>
     0 < l \<and> (\<exists>l0. (p, l0, c) \<in> set imps \<and> l = fl (l0 - dt))"
  by (induction dt imps rule: alive_after_fl.induct) (auto simp: Let_def)

lemma update_all_fl_member:
  assumes "\<forall>dt \<in> set dts. 0 \<le> dt" and "dts \<noteq> []"
    and "(p, l, c) \<in> set (impacts (update_all_fl dts t))"
  shows "0 < l \<and> (\<exists>l0. (p, l0, c) \<in> set (impacts t)
                      \<and> sum_list dts < l0 * (1 + unit_roundoff) ^ length dts)"
  using assms
proof (induction dts arbitrary: t)
  case Nil
  then show ?case by simp
next
  case (Cons dt dts)
  define u :: real where "u = 1 + unit_roundoff"
  have u: "1 \<le> u" using unit_roundoff_pos by (simp add: u_def)
  have dt: "0 \<le> dt" and rest: "\<forall>d \<in> set dts. 0 \<le> d"
    using Cons.prems(1) by simp_all
  have step: "0 < l1 \<Longrightarrow> (p, l1, c) \<in> set (impacts (TrailManager_update_fl dt t)) \<Longrightarrow>
                \<exists>l0. (p, l0, c) \<in> set (impacts t) \<and> 0 < l0 - dt \<and> l1 \<le> (l0 - dt) * u" for l1
  proof -
    assume "0 < l1" and "(p, l1, c) \<in> set (impacts (TrailManager_update_fl dt t))"
    then obtain l0 where m: "(p, l0, c) \<in> set (impacts t)" and e: "l1 = fl (l0 - dt)"
      by (auto simp: TrailManager_update_fl_def alive_after_fl_member)
    from \<open>0 < l1\<close> e have d: "0 < l0 - dt"
      by (simp add: fl_pos_iff)
    from fl_le_scaled [OF d] e have "l1 \<le> (l0 - dt) * u"
      by (simp add: u_def)
    with m d show ?thesis by blast
  qed
  show ?case
  proof (cases "dts = []")
    case True
    with Cons.prems(3) have m: "(p, l, c) \<in> set (impacts (TrailManager_update_fl dt t))"
      by simp
    then have l: "0 < l"
      by (simp add: TrailManager_update_fl_def alive_after_fl_member)
    from step [OF l m] obtain l0 where
      "(p, l0, c) \<in> set (impacts t)" "0 < l0 - dt"
      by blast
    moreover from this dt have "0 \<le> l0" by simp
    then have "l0 * 1 \<le> l0 * u"
      using u by (intro mult_left_mono)
    with \<open>0 < l0 - dt\<close> have "dt < l0 * u" by simp
    moreover note \<open>(p, l0, c) \<in> set (impacts t)\<close>
    ultimately show ?thesis
      using True l by (auto simp: u_def)
  next
    case False
    from Cons.IH [OF rest False, of "TrailManager_update_fl dt t"] Cons.prems(3)
    obtain l1 where l: "0 < l"
      and m1: "(p, l1, c) \<in> set (impacts (TrailManager_update_fl dt t))"
      and s1: "sum_list dts < l1 * u ^ length dts"
      unfolding u_def by auto
    from m1 have "0 < l1"
      by (simp add: TrailManager_update_fl_def alive_after_fl_member)
    from step [OF this m1] obtain l0 where
      m0: "(p, l0, c) \<in> set (impacts t)" and d: "0 < l0 - dt" and le: "l1 \<le> (l0 - dt) * u"
      by blast
    have un: "1 \<le> u ^ length dts" and un1: "1 \<le> u ^ Suc (length dts)"
      using u by (simp_all del: power_Suc)
    have "l1 * u ^ length dts \<le> ((l0 - dt) * u) * u ^ length dts"
      using le un by (intro mult_right_mono) simp_all
    with s1 have "sum_list dts < (l0 - dt) * u ^ Suc (length dts)"
      by (simp add: ac_simps)
    moreover have "dt * 1 \<le> dt * u ^ Suc (length dts)"
      using dt un1 by (intro mult_left_mono)
    ultimately have "dt + sum_list dts < l0 * u ^ Suc (length dts)"
      by (simp add: algebra_simps del: power_Suc)
    with l m0 show ?thesis
      by (auto simp: u_def)
  qed
qed

text \<open>
  Claim C7, amended, in double arithmetic. \<open>TrailManager.update dt\<close> replaces every life by
  the rounded difference \<open>fl (life - dt)\<close> and keeps, in their order, exactly the impacts
  whose new life is above zero. An impact added with \<open>IMPACT_LIFETIME\<close> is still there,
  with half its life, after \<open>update(IMPACT_LIFETIME / 2)\<close>. After \<open>n\<close> updates with
  non-negative steps whose sum is at least \<open>IMPACT_LIFETIME * (1 + 2^-53)^n\<close>, every impact
  left stems from one that was in the list before the addition with a life above
  \<open>IMPACT_LIFETIME\<close>: the added one is gone.
\<close>

theorem impacts_decay_rounded:
  "impacts (TrailManager_update_fl dt t)
     = map (\<lambda>(pos, life, col). (pos, fl (life - dt), col))
           (filter (\<lambda>(pos, life, col). fl (life - dt) > 0) (impacts t))
   \<and> impacts (TrailManager_update_fl (fl (IMPACT_LIFETIME_fl / 2))
                 (TrailManager_add_impact_fl pos col t))
     = impacts (TrailManager_update_fl (fl (IMPACT_LIFETIME_fl / 2)) t)
       @ [(pos, IMPACT_LIFETIME_fl / 2, col)]
   \<and> ((\<forall>d \<in> set dts. 0 \<le> d)
        \<and> IMPACT_LIFETIME_fl * (1 + unit_roundoff) ^ length dts \<le> sum_list dts \<longrightarrow>
        (\<forall>(p, l, c) \<in> set (impacts (update_all_fl dts (TrailManager_add_impact_fl pos col t))).
           \<exists>l0. (p, l0, c) \<in> set (impacts t) \<and> IMPACT_LIFETIME_fl < l0))"
proof (intro conjI impI)
  show "impacts (TrailManager_update_fl dt t)
     = map (\<lambda>(pos, life, col). (pos, fl (life - dt), col))
           (filter (\<lambda>(pos, life, col). fl (life - dt) > 0) (impacts t))"
    by (simp add: TrailManager_update_fl_def alive_after_fl_filter)
next
  have half: "fl (IMPACT_LIFETIME_fl / 2) = IMPACT_LIFETIME_fl / 2"
    unfolding IMPACT_LIFETIME_fl_eq
    using fl_eqI [of "5404319552844595 / 9007199254740992 / 2" 54 5404319552844595]
    by (simp add: round_half_even_def)
  have "0 < IMPACT_LIFETIME_fl / 2"
    unfolding IMPACT_LIFETIME_fl_eq by simp
  then show "impacts (TrailManager_update_fl (fl (IMPACT_LIFETIME_fl / 2))
                 (TrailManager_add_impact_fl pos col t))
     = impacts (TrailManager_update_fl (fl (IMPACT_LIFETIME_fl / 2)) t)
       @ [(pos, IMPACT_LIFETIME_fl / 2, col)]"
    by (simp add: TrailManager_update_fl_def TrailManager_add_impact_fl_def
                  alive_after_fl_filter half)
next
  assume a: "(\<forall>d \<in> set dts. 0 \<le> d)
        \<and> IMPACT_LIFETIME_fl * (1 + unit_roundoff) ^ length dts \<le> sum_list dts"
  then have nonneg: "\<forall>d \<in> set dts. 0 \<le> d"
    and big: "IMPACT_LIFETIME_fl * (1 + unit_roundoff) ^ length dts \<le> sum_list dts"
    by simp_all
  have up: "0 < (1 + unit_roundoff) ^ length dts"
    using unit_roundoff_pos by simp
  then have "0 < IMPACT_LIFETIME_fl * (1 + unit_roundoff) ^ length dts"
    unfolding IMPACT_LIFETIME_fl_eq by simp
  with big have ne: "dts \<noteq> []" by auto
  show "\<forall>(p, l, c) \<in> set (impacts (update_all_fl dts (TrailManager_add_impact_fl pos col t))).
           \<exists>l0. (p, l0, c) \<in> set (impacts t) \<and> IMPACT_LIFETIME_fl < l0"
  proof (clarify)
    fix p l c
    assume "(p, l, c) \<in> set (impacts (update_all_fl dts (TrailManager_add_impact_fl pos col t)))"
    from update_all_fl_member [OF nonneg ne this] obtain l0 where
      m: "(p, l0, c) \<in> set (impacts t) \<or> l0 = IMPACT_LIFETIME_fl"
      and s: "sum_list dts < l0 * (1 + unit_roundoff) ^ length dts"
      by (auto simp: TrailManager_add_impact_fl_def)
    from s big have "IMPACT_LIFETIME_fl * (1 + unit_roundoff) ^ length dts
                       < l0 * (1 + unit_roundoff) ^ length dts"
      by simp
    then have "IMPACT_LIFETIME_fl < l0"
      using up by (simp only: mult_less_cancel_right_pos)
    with m show "\<exists>l0. (p, l0, c) \<in> set (impacts t) \<and> IMPACT_LIFETIME_fl < l0"
      by auto
  qed
qed

theorem impacts_decay_rounded_witness:
  "(0 :: real) \<le> 1 / 2 \<and> (0 :: real) \<le> 1 / 4
   \<and> IMPACT_LIFETIME_fl * (1 + unit_roundoff) ^ length [1 / 2, 1 / 4 :: real]
        \<le> sum_list [1 / 2, 1 / 4]
   \<and> impacts (TrailManager_update_fl (fl (IMPACT_LIFETIME_fl / 2))
        (TrailManager_add_impact_fl (1, 2) (255, 0, 0) TrailManager_init))
       = [((1, 2), IMPACT_LIFETIME_fl / 2, (255, 0, 0))]
   \<and> impacts (update_all_fl [1 / 2, 1 / 4]
        (TrailManager_add_impact_fl (1, 2) (255, 0, 0) TrailManager_init)) = []"
proof -
  define left where "left = impacts (update_all_fl [1 / 2, 1 / 4]
        (TrailManager_add_impact_fl (1, 2) (255, 0, 0) TrailManager_init))"
  note inst = impacts_decay_rounded [of "fl (IMPACT_LIFETIME_fl / 2)" TrailManager_init "(1, 2)"
                                       "(255, 0, 0)" "[1 / 2, 1 / 4]"]
  have steps: "\<forall>d \<in> set [1 / 2, 1 / 4 :: real]. 0 \<le> d"
    by simp
  have big: "IMPACT_LIFETIME_fl * (1 + unit_roundoff) ^ length [1 / 2, 1 / 4 :: real]
               \<le> sum_list [1 / 2, 1 / 4]"
    by (simp add: IMPACT_LIFETIME_fl_eq unit_roundoff_def power2_eq_square)
  have "impacts (TrailManager_update_fl (fl (IMPACT_LIFETIME_fl / 2)) TrailManager_init) = []"
    by (simp add: TrailManager_update_fl_def TrailManager_init_def)
  with inst have half: "impacts (TrailManager_update_fl (fl (IMPACT_LIFETIME_fl / 2))
        (TrailManager_add_impact_fl (1, 2) (255, 0, 0) TrailManager_init))
       = [((1, 2), IMPACT_LIFETIME_fl / 2, (255, 0, 0))]"
    by simp
  from inst steps big
  have "\<forall>(p, l, c) \<in> set left.
          \<exists>l0. (p, l0, c) \<in> set (impacts TrailManager_init) \<and> IMPACT_LIFETIME_fl < l0"
    unfolding left_def by blast
  then have "left = []"
    by (cases left) (fastforce simp: TrailManager_init_def)+
  with big half show ?thesis
    unfolding left_def by simp
qed

section \<open>Ball in double precision\<close>

subsection \<open>One frame, evaluated\<close>

text \<open>The roundings that occur when \<open>Ball.update(0.125)\<close> runs on \<open>grazing_ball\<close>, each
  checked against the definition of \<open>fl\<close>.\<close>

lemma fl_999_1000: "fl (999 / 1000) = 8998192055486251 / 9007199254740992"
  using fl_eqI [of "999 / 1000" 53 "8998192055486251"] by (simp add: round_half_even_def)

lemma fl_4_5: "fl (4 / 5) = 3602879701896397 / 4503599627370496"
  using fl_eqI [of "4 / 5" 53 "7205759403792794"] by (simp add: round_half_even_def)

lemma fl_19_20: "fl (19 / 20) = 4278419646001971 / 4503599627370496"
  using fl_eqI [of "19 / 20" 53 "8556839292003942"] by (simp add: round_half_even_def)

lemma fl_99_100: "fl (99 / 100) = 4458563631096791 / 4503599627370496"
  using fl_eqI [of "99 / 100" 53 "8917127262193582"] by (simp add: round_half_even_def)

lemma fl_3_5: "fl (3 / 5) = 5404319552844595 / 9007199254740992"
  using fl_eqI [of "3 / 5" 53 "5404319552844595"] by (simp add: round_half_even_def)

lemma graze_fl_1: "fl (25) = 25"
  using fl_eqI [of "25" 48 "7036874417766400"] by (simp add: round_half_even_def)

lemma graze_fl_2: "fl (1124774006935781375 / 4503599627370496) = 999 / 4"
  using fl_eqI [of "1124774006935781375 / 4503599627370496" 45 "8787296929185792"] by (simp add: round_half_even_def)

lemma graze_fl_3: "fl (224954801387156275 / 9007199254740992) = 3514918771674317 / 140737488355328"
  using fl_eqI [of "224954801387156275 / 9007199254740992" 48 "7029837543348634"] by (simp add: round_half_even_def)

lemma graze_fl_4: "fl (999 / 32) = 999 / 32"
  using fl_eqI [of "999 / 32" 48 "8787296929185792"] by (simp add: round_half_even_def)

lemma graze_fl_5: "fl (20231 / 32) = 20231 / 32"
  using fl_eqI [of "20231 / 32" 43 "5561054935384064"] by (simp add: round_half_even_def)

lemma graze_fl_6: "fl (3514918771674317 / 1125899906842624) = 3514918771674317 / 1125899906842624"
  using fl_eqI [of "3514918771674317 / 1125899906842624" 51 "7029837543348634"] by (simp add: round_half_even_def)

lemma graze_fl_7: "fl (367180588681841869 / 1125899906842624) = 5737196698153779 / 17592186044416"
  using fl_eqI [of "367180588681841869 / 1125899906842624" 44 "5737196698153779"] by (simp add: round_half_even_def)

lemma graze_fl_8: "fl (450359962737049625 / 2251799813685248) = 200"
  using fl_eqI [of "450359962737049625 / 2251799813685248" 45 "7036874417766400"] by (simp add: round_half_even_def)

lemma graze_fl_9: "fl (3 / 2) = 3 / 2"
  using fl_eqI [of "3 / 2" 52 "6755399441055744"] by (simp add: round_half_even_def)

lemma graze_fl_10: "fl (33 / 2) = 33 / 2"
  using fl_eqI [of "33 / 2" 48 "4644337115725824"] by (simp add: round_half_even_def)

lemma graze_fl_11: "fl (7431 / 32) = 7431 / 32"
  using fl_eqI [of "7431 / 32" 45 "8170470906003456"] by (simp add: round_half_even_def)

lemma graze_fl_12: "fl (459540884828979 / 17592186044416) = 459540884828979 / 17592186044416"
  using fl_eqI [of "459540884828979 / 17592186044416" 48 "7352654157263664"] by (simp add: round_half_even_def)

lemma graze_fl_13: "fl (467 / 2) = 467 / 2"
  using fl_eqI [of "467 / 2" 45 "8215550882742272"] by (simp add: round_half_even_def)

lemma graze_fl_14: "fl (2723490302001152 / 2740667115161857) = 4475373839232269 / 4503599627370496"
  using fl_eqI [of "2723490302001152 / 2740667115161857" 53 "8950747678464538"] by (simp add: round_half_even_def)

lemma graze_fl_15: "fl (306360589885986 / 2740667115161857) = 8054829750427673 / 72057594037927936"
  using fl_eqI [of "306360589885986 / 2740667115161857" 56 "8054829750427673"] by (simp add: round_half_even_def)

lemma graze_fl_16: "fl (2089999582921469623 / 9007199254740992) = 8164060870786991 / 35184372088832"
  using fl_eqI [of "2089999582921469623 / 9007199254740992" 45 "8164060870786991"] by (simp add: round_half_even_def)

lemma graze_fl_17: "fl (22237809706319791 / 35184372088832) = 1389863106644987 / 2199023255552"
  using fl_eqI [of "22237809706319791 / 35184372088832" 43 "5559452426579948"] by (simp add: round_half_even_def)

lemma graze_fl_18: "fl (3761605493449723291 / 144115188075855872) = 7346885729393991 / 281474976710656"
  using fl_eqI [of "3761605493449723291 / 144115188075855872" 48 "7346885729393991"] by (simp add: round_half_even_def)

lemma graze_fl_19: "fl (91789378742590791 / 281474976710656) = 1434209042852981 / 4398046511104"
  using fl_eqI [of "91789378742590791 / 281474976710656" 44 "5736836171411924"] by (simp add: round_half_even_def)

lemma graze_fl_20: "fl (4470898465393036731 / 18014398509481984) = 8732223565220775 / 35184372088832"
  using fl_eqI [of "4470898465393036731 / 18014398509481984" 45 "8732223565220775"] by (simp add: round_half_even_def)

lemma graze_fl_21: "fl (28312072292418981738369020174341 / 10141204801825835211973625643008) = 3143271453389549 / 1125899906842624"
  using fl_eqI [of "28312072292418981738369020174341 / 10141204801825835211973625643008" 51 "6286542906779098"] by (simp add: round_half_even_def)

lemma graze_fl_22: "fl (282574425540454349 / 1125899906842624) = 4415225399069599 / 17592186044416"
  using fl_eqI [of "282574425540454349 / 1125899906842624" 45 "8830450798139198"] by (simp add: round_half_even_def)

lemma graze_fl_23: "fl (19759784245309938293037057690131 / 79228162514264337593543950336) = 4387553486153703 / 17592186044416"
  using fl_eqI [of "19759784245309938293037057690131 / 79228162514264337593543950336" 45 "8775106972307406"] by (simp add: round_half_even_def)

lemma graze_fl_24: "fl (6094978439193 / 17592186044416) = 6094978439193 / 17592186044416"
  using fl_eqI [of "6094978439193 / 17592186044416" 54 "6241257921733632"] by (simp add: round_half_even_def)

lemma graze_fl_25: "fl (35563888899269701037866542613127 / 1267650600228229401496703205376) = 7896769660236047 / 281474976710656"
  using fl_eqI [of "35563888899269701037866542613127 / 1267650600228229401496703205376" 48 "7896769660236047"] by (simp add: round_half_even_def)

lemma graze_fl_26: "fl (- (866932116887413 / 281474976710656)) = - (866932116887413 / 281474976710656)"
  using fl_eqI [of "- (866932116887413 / 281474976710656)" 51 "- 6935456935099304"] by (simp add: round_half_even_def)

lemma graze_fl_27: "fl (- (18890187088906264892203520179629 / 79228162514264337593543950336)) = - (4194464129116119 / 17592186044416)"
  using fl_eqI [of "- (18890187088906264892203520179629 / 79228162514264337593543950336)" 45 "- 8388928258232238"] by (simp add: round_half_even_def)

lemma graze_fl_28: "fl (27174849201304993847890929663 / 79228162514264337593543950336) = 772355667814537 / 2251799813685248"
  using fl_eqI [of "27174849201304993847890929663 / 79228162514264337593543950336" 54 "6178845342516296"] by (simp add: round_half_even_def)

lemma graze_fl_29: "fl (- (3865272006983971750002252591683 / 1267650600228229401496703205376)) = - (6866102365748311 / 2251799813685248)"
  using fl_eqI [of "- (3865272006983971750002252591683 / 1267650600228229401496703205376)" 51 "- 6866102365748311"] by (simp add: round_half_even_def)

lemma graze_fl_30: "fl (- (18771795033044441154616512844011 / 79228162514264337593543950336)) = - (2084087905923009 / 8796093022208)"
  using fl_eqI [of "- (18771795033044441154616512844011 / 79228162514264337593543950336)" 45 "- 8336351623692036"] by (simp add: round_half_even_def)

lemma graze_fl_31: "fl (- (532754148248475767 / 2251799813685248)) = - (4162141783191217 / 17592186044416)"
  using fl_eqI [of "- (532754148248475767 / 2251799813685248)" 45 "- 8324283566382434"] by (simp add: round_half_even_def)

lemma graze_fl_32: "fl (- (33785694454306215583231727961087 / 1267650600228229401496703205376)) = - (7501931177224245 / 281474976710656)"
  using fl_eqI [of "- (33785694454306215583231727961087 / 1267650600228229401496703205376)" 48 "- 7501931177224245"] by (simp add: round_half_even_def)

lemma graze_fl_33: "fl (- (66881551783542271 / 2251799813685248)) = - (130628030827231 / 4398046511104)"
  using fl_eqI [of "- (66881551783542271 / 2251799813685248)" 48 "- 8360193972942784"] by (simp add: round_half_even_def)

lemma graze_fl_34: "fl (4278419646001971 / 9007199254740992) = 4278419646001971 / 9007199254740992"
  using fl_eqI [of "4278419646001971 / 9007199254740992" 54 "8556839292003942"] by (simp add: round_half_even_def)

lemma graze_fl_35: "fl (510253804424187 / 2199023255552) = 510253804424187 / 2199023255552"
  using fl_eqI [of "510253804424187 / 2199023255552" 45 "8164060870786992"] by (simp add: round_half_even_def)

lemma graze_fl_36: "fl (114795089521781 / 4398046511104) = 114795089521781 / 4398046511104"
  using fl_eqI [of "114795089521781 / 4398046511104" 48 "7346885729393984"] by (simp add: round_half_even_def)

lemma graze_sqrt_1: "fl (sqrt (16900326531291634724367649168425 / 309485009821345068724781056)) = 8222001345485571 / 35184372088832"
  using fl_sqrt_eqI [of 8222001345485571 "16900326531291634724367649168425 / 309485009821345068724781056" 45] by simp

lemma graze_sqrt_2: "fl (sqrt (1054613692295739621517795855837 / 19342813113834066795298816)) = 8215550882742273 / 35184372088832"
  using fl_sqrt_eqI [of 8215550882742273 "1054613692295739621517795855837 / 19342813113834066795298816" 45] by simp

lemmas graze_fl = fl_999_1000 fl_4_5 fl_19_20 fl_99_100 fl_3_5 graze_fl_1 graze_fl_2 graze_fl_3 graze_fl_4 graze_fl_5 graze_fl_6 graze_fl_7 graze_fl_8 graze_fl_9 graze_fl_10 graze_fl_11 graze_fl_12 graze_fl_13 graze_fl_14 graze_fl_15 graze_fl_16 graze_fl_17 graze_fl_18 graze_fl_19 graze_fl_20 graze_fl_21 graze_fl_22 graze_fl_23 graze_fl_24 graze_fl_25 graze_fl_26 graze_fl_27 graze_fl_28 graze_fl_29 graze_fl_30 graze_fl_31 graze_fl_32 graze_fl_33 graze_fl_34 graze_fl_35 graze_fl_36 graze_sqrt_1 graze_sqrt_2

lemma graze_update: "Ball_update_fl (1 / 8) grazing_ball = Inr grazing_ball_after"
  by (simp add: Ball_update_fl_def resolve_collision_fl_def record_trails_fl_def
                collision_normal_fl_def float_div_fl_def hypot_fl_def hypot_def
                Ball_reflect_on_circle_fl_def Ball_color_def list_getitem_def COLORS_def
                Ball_cycle_color_def TrailManager_add_impact_fl_def TrailManager_update_fl_def
                TrailManager_push_position_def deque_append_def TRAIL_LEN_def
                TrailManager_init_def IMPACT_LIFETIME_fl_def
                RESTIUTION_fl_def TANGENTIAL_FRICTION_fl_def
                grow_radius_fl_def apply_motion_fl_def grazing_ball_def app_ball_def app_arena_def
                Let_def LINEAR_FRICTION_fl_def BALL_MAX_RATIO_fl_def GRAVITY_def GROWTH_PER_SEC_def
                BALL_BASE_RADIUS_def grazing_ball_after_def graze_fl)

lemma graze_outside: "max_dist grazing_ball_after < center_dist grazing_ball_after"
  unfolding center_dist_def max_dist_def
  by (subst hypot_gt_iff) (simp_all add: grazing_ball_after_def app_arena_def)

lemma graze_inside: "center_dist grazing_ball \<le> max_dist grazing_ball"
  unfolding center_dist_def max_dist_def
  by (subst hypot_le_iff)
     (simp_all add: grazing_ball_def app_ball_def app_arena_def BALL_BASE_RADIUS_def)

lemma graze_measured: "hits_boundary_fl grazing_ball_after"
  by (simp add: hits_boundary_fl_def hypot_fl_def hypot_def grazing_ball_after_def app_arena_def
                graze_fl)

text \<open>
  Claim C1, as stated, fails in double arithmetic. The ball starts inside the arena of the
  application; \<open>Ball.update(0.125)\<close> takes the collision branch and stores a position
  whose distance from the centre is above \<open>arena.radius - radius = 233.5\<close>, both exactly
  and as the collision test of the code measures it (\<open>233.50000000000003\<close>).
\<close>

theorem clamp_lands_outside_counterexample:
  "center_dist grazing_ball \<le> max_dist grazing_ball
   \<and> Ball_update_fl (1 / 8) grazing_ball = Inr grazing_ball_after
   \<and> max_dist grazing_ball_after < center_dist grazing_ball_after
   \<and> hits_boundary_fl grazing_ball_after"
  using graze_inside graze_update graze_outside graze_measured by blast

subsection \<open>The error of the clamp\<close>

lemma fl_hypot_ge: "(1 - unit_roundoff) * hypot a c \<le> fl (hypot a c)"
proof -
  have "0 \<le> hypot a c" by (rule hypot_nonneg)
  then have "0 \<le> fl (hypot a c)" by (rule fl_nonneg)
  with fl_abs_ge [of "hypot a c"] \<open>0 \<le> hypot a c\<close> show ?thesis by simp
qed

lemma miss_error:
  assumes M: "0 \<le> M"
    and miss: "fl (hypot (fl (X - cx)) (fl (Y - cy))) \<le> fl M"
  shows "hypot (X - cx) (Y - cy) \<le> M + 8 * unit_roundoff * (\<bar>cx\<bar> + \<bar>cy\<bar> + M)"
proof -
  define u where "u = unit_roundoff"
  define E where "E = hypot (X - cx) (Y - cy)"
  define D where "D = hypot (fl (X - cx)) (fl (Y - cy))"
  have u: "0 < u" "u < 1"
    by (simp_all add: u_def unit_roundoff_pos unit_roundoff_lt_1)
  have "(1 - u) * E = hypot ((1 - u) * (X - cx)) ((1 - u) * (Y - cy))"
    using u by (simp add: E_def hypot_scale_abs)
  also have "\<dots> \<le> D"
    unfolding D_def using u fl_abs_ge [of "X - cx"] fl_abs_ge [of "Y - cy"]
    by (intro hypot_mono) (simp_all add: abs_mult u_def)
  finally have 1: "(1 - u) * E \<le> D" .
  have 2: "(1 - u) * D \<le> fl D"
    unfolding D_def u_def by (rule fl_hypot_ge)
  have 3: "fl M \<le> (1 + u) * M"
    using fl_abs_le [of M] M fl_nonneg [OF M] by (simp add: u_def)
  have "(1 - u) * ((1 - u) * E) \<le> (1 - u) * D"
    using 1 u by (intro mult_left_mono) simp_all
  also have "\<dots> \<le> fl D" by (rule 2)
  also have "\<dots> \<le> fl M" using miss by (simp add: D_def)
  also have "\<dots> \<le> (1 + u) * M" by (rule 3)
  also have "\<dots> \<le> ((1 + 8 * u) * (1 - u)\<^sup>2) * M"
    using roundoff_miss M by (intro mult_right_mono) (simp_all add: u_def)
  finally have "(1 - u)\<^sup>2 * E \<le> (1 - u)\<^sup>2 * ((1 + 8 * u) * M)"
    by (simp add: power2_eq_square ac_simps)
  moreover have "0 < (1 - u)\<^sup>2"
    using u by simp
  ultimately have "E \<le> (1 + 8 * u) * M"
    by (simp only: mult_le_cancel_left_pos)
  also have "\<dots> \<le> M + 8 * u * (\<bar>cx\<bar> + \<bar>cy\<bar> + M)"
    using u by (simp add: algebra_simps)
  finally show ?thesis
    by (simp add: E_def u_def)
qed

lemma hit_error:
  assumes M: "0 \<le> M"
    and hit: "fl M < fl (hypot dx dy)"
    and nx: "nx = fl (dx / fl (hypot dx dy))" and ny: "ny = fl (dy / fl (hypot dx dy))"
    and px: "px = fl (nx * fl M)" and py: "py = fl (ny * fl M)"
  shows "hypot (fl (cx + px) - cx) (fl (cy + py) - cy)
           \<le> M + 8 * unit_roundoff * (\<bar>cx\<bar> + \<bar>cy\<bar> + M)"
proof -
  define u where "u = unit_roundoff"
  define D where "D = hypot dx dy"
  define dst where "dst = fl D"
  define md where "md = fl M"
  define H where "H = hypot px py"
  define C where "C = \<bar>cx\<bar> + \<bar>cy\<bar>"
  define T where "T = hypot (fl (cx + px) - cx) (fl (cy + py) - cy)"
  have u: "0 < u" "u < 1"
    by (simp_all add: u_def unit_roundoff_pos unit_roundoff_lt_1)
  have md: "0 \<le> md"
    unfolding md_def by (rule fl_nonneg [OF M])
  have dst: "0 < dst"
    using hit md by (simp add: dst_def D_def md_def)
  have D: "0 \<le> D"
    unfolding D_def by (rule hypot_nonneg)
  have Dd: "(1 - u) * D \<le> dst"
    unfolding D_def dst_def u_def by (rule fl_hypot_ge)
  have mdM: "md \<le> (1 + u) * M"
    using fl_abs_le [of M] M md by (simp add: u_def md_def)
  define c where "c = (1 + u)\<^sup>2 * md / dst"
  have c: "0 \<le> c"
    using md dst u by (simp add: c_def)
  have comp: "\<bar>fl (fl (a / dst) * md)\<bar> \<le> \<bar>c * a\<bar>" for a
  proof -
    have "\<bar>fl (fl (a / dst) * md)\<bar> \<le> (1 + u) * \<bar>fl (a / dst) * md\<bar>"
      unfolding u_def by (rule fl_abs_le)
    also have "\<dots> = (1 + u) * md * \<bar>fl (a / dst)\<bar>"
      using md by (simp add: abs_mult)
    also have "\<dots> \<le> (1 + u) * md * ((1 + u) * \<bar>a / dst\<bar>)"
      using md u fl_abs_le [of "a / dst"] by (intro mult_left_mono) (simp_all add: u_def)
    also have "\<dots> = \<bar>c * a\<bar>"
      using md dst u by (simp add: c_def abs_mult power2_eq_square)
    finally show ?thesis .
  qed
  have "H \<le> hypot (c * dx) (c * dy)"
    unfolding H_def px py nx ny
    using comp [of dx] comp [of dy] by (intro hypot_mono) (simp_all add: dst_def D_def md_def)
  also have "\<dots> = c * D"
    using c by (simp add: hypot_scale_abs D_def)
  finally have Hc: "H \<le> c * D" .
  have "(1 - u) * (c * D) = ((1 + u)\<^sup>2 * md) * (((1 - u) * D) / dst)"
    by (simp add: c_def)
  also have "\<dots> \<le> ((1 + u)\<^sup>2 * md) * 1"
    using Dd dst md by (intro mult_left_mono) simp_all
  finally have cD: "(1 - u) * (c * D) \<le> (1 + u)\<^sup>2 * md"
    by simp
  have "(1 - u) * H \<le> (1 - u) * (c * D)"
    using Hc u by (intro mult_left_mono) simp_all
  also note cD
  also have "(1 + u)\<^sup>2 * md \<le> (1 + u)\<^sup>2 * ((1 + u) * M)"
    using mdM by (intro mult_left_mono) simp_all
  finally have HM: "(1 - u) * H \<le> (1 + u) ^ 3 * M"
    by (simp add: power2_eq_square power3_eq_cube ac_simps)
  have H: "0 \<le> H"
    unfolding H_def by (rule hypot_nonneg)
  have err: "\<bar>fl (a + p) - (a + p)\<bar> \<le> u * (\<bar>a\<bar> + \<bar>p\<bar>)" for a p
  proof -
    have "\<bar>fl (a + p) - (a + p)\<bar> \<le> u * \<bar>a + p\<bar>"
      unfolding u_def by (rule fl_near)
    also have "\<dots> \<le> u * (\<bar>a\<bar> + \<bar>p\<bar>)"
      using u by (intro mult_left_mono) simp_all
    finally show ?thesis .
  qed
  have pH: "\<bar>px\<bar> \<le> H" "\<bar>py\<bar> \<le> H"
    unfolding H_def by (rule abs_le_hypot)+
  have "T = hypot (px + (fl (cx + px) - (cx + px))) (py + (fl (cy + py) - (cy + py)))"
    by (simp add: T_def)
  also have "\<dots> \<le> H + hypot (fl (cx + px) - (cx + px)) (fl (cy + py) - (cy + py))"
    unfolding H_def by (rule hypot_triangle)
  also have "\<dots> \<le> H + (\<bar>fl (cx + px) - (cx + px)\<bar> + \<bar>fl (cy + py) - (cy + py)\<bar>)"
    by (intro add_left_mono hypot_le_sum_abs)
  also have "\<dots> \<le> H + (u * (\<bar>cx\<bar> + \<bar>px\<bar>) + u * (\<bar>cy\<bar> + \<bar>py\<bar>))"
    by (intro add_left_mono add_mono err)
  also have "\<dots> \<le> H + (u * (\<bar>cx\<bar> + H) + u * (\<bar>cy\<bar> + H))"
    using pH u by (intro add_left_mono add_mono mult_left_mono) simp_all
  also have "\<dots> = (1 + 2 * u) * H + u * C"
    by (simp add: C_def algebra_simps)
  finally have TH: "T \<le> (1 + 2 * u) * H + u * C" .
  have C: "0 \<le> C" by (simp add: C_def)
  have "(1 - u) * T \<le> (1 - u) * ((1 + 2 * u) * H + u * C)"
    using TH u by (intro mult_left_mono) simp_all
  also have "\<dots> = (1 + 2 * u) * ((1 - u) * H) + (1 - u) * (u * C)"
    by (simp add: algebra_simps)
  also have "\<dots> \<le> (1 + 2 * u) * ((1 + u) ^ 3 * M) + (1 - u) * (u * C)"
    using HM u by (intro add_right_mono mult_left_mono) simp_all
  also have "(1 + 2 * u) * ((1 + u) ^ 3 * M) = ((1 + 2 * u) * (1 + u) ^ 3) * M"
    by simp
  also have "\<dots> + (1 - u) * (u * C) \<le> ((1 + 8 * u) * (1 - u)) * M + (1 - u) * (u * C)"
    using roundoff_hit M by (intro add_right_mono mult_right_mono) (simp_all add: u_def)
  also have "\<dots> = (1 - u) * ((1 + 8 * u) * M + u * C)"
    by (simp add: algebra_simps)
  finally have "(1 - u) * T \<le> (1 - u) * ((1 + 8 * u) * M + u * C)" .
  moreover have "0 < 1 - u" using u by simp
  ultimately have "T \<le> (1 + 8 * u) * M + u * C"
    by (simp only: mult_le_cancel_left_pos)
  also have "\<dots> \<le> M + 8 * u * (C + M)"
    using u C by (simp add: algebra_simps)
  finally show ?thesis
    by (simp add: T_def u_def C_def)
qed

lemma fl_hypot_le: "fl (hypot a c) \<le> (1 + unit_roundoff) * hypot a c"
  using fl_abs_le [of "hypot a c"] fl_nonneg [OF hypot_nonneg [of a c]] hypot_nonneg [of a c]
  by simp

lemma roundoff_hit_lower:
  "(1 - 8 * unit_roundoff) * (1 + unit_roundoff) \<le> (1 - 2 * unit_roundoff) * (1 - unit_roundoff) ^ 3"
  by (simp add: unit_roundoff_def power3_eq_cube)

lemma hypot_triangle_lower: "hypot a c - hypot a' c' \<le> hypot (a + a') (c + c')"
  using hypot_triangle [of "a + a'" "- a'" "c + c'" "- c'"] by (simp add: hypot_def)

lemma hit_error_lower:
  assumes M: "0 \<le> M"
    and hit: "fl M < fl (hypot dx dy)"
    and nx: "nx = fl (dx / fl (hypot dx dy))" and ny: "ny = fl (dy / fl (hypot dx dy))"
    and px: "px = fl (nx * fl M)" and py: "py = fl (ny * fl M)"
  shows "M - 8 * unit_roundoff * (\<bar>cx\<bar> + \<bar>cy\<bar> + M)
           \<le> hypot (fl (cx + px) - cx) (fl (cy + py) - cy)"
proof -
  define u where "u = unit_roundoff"
  define D where "D = hypot dx dy"
  define dst where "dst = fl D"
  define md where "md = fl M"
  define H where "H = hypot px py"
  define C where "C = \<bar>cx\<bar> + \<bar>cy\<bar>"
  define T where "T = hypot (fl (cx + px) - cx) (fl (cy + py) - cy)"
  have u: "0 < u" "u < 1" "2 * u < 1"
    by (simp_all add: u_def unit_roundoff_pos unit_roundoff_lt_1) (simp add: unit_roundoff_def)
  have md: "0 \<le> md"
    unfolding md_def by (rule fl_nonneg [OF M])
  have dst: "0 < dst"
    using hit md by (simp add: dst_def D_def md_def)
  have D: "0 \<le> D"
    unfolding D_def by (rule hypot_nonneg)
  have Dd: "dst \<le> (1 + u) * D"
    unfolding D_def dst_def u_def by (rule fl_hypot_le)
  have mdM: "(1 - u) * M \<le> md"
    using fl_abs_ge [of M] M md by (simp add: u_def md_def)
  define c where "c = (1 - u)\<^sup>2 * md / dst"
  have c: "0 \<le> c"
    using md dst u by (simp add: c_def)
  have comp: "\<bar>c * a\<bar> \<le> \<bar>fl (fl (a / dst) * md)\<bar>" for a
  proof -
    have "\<bar>c * a\<bar> = (1 - u) * md * ((1 - u) * \<bar>a / dst\<bar>)"
      using md dst u by (simp add: c_def abs_mult power2_eq_square)
    also have "\<dots> \<le> (1 - u) * md * \<bar>fl (a / dst)\<bar>"
      using md u fl_abs_ge [of "a / dst"] by (intro mult_left_mono) (simp_all add: u_def)
    also have "\<dots> = (1 - u) * \<bar>fl (a / dst) * md\<bar>"
      using md by (simp add: abs_mult)
    also have "\<dots> \<le> \<bar>fl (fl (a / dst) * md)\<bar>"
      unfolding u_def by (rule fl_abs_ge)
    finally show ?thesis .
  qed
  have "c * D = hypot (c * dx) (c * dy)"
    using c by (simp add: hypot_scale_abs D_def)
  also have "\<dots> \<le> H"
    unfolding H_def px py nx ny
    using comp [of dx] comp [of dy] by (intro hypot_mono) (simp_all add: dst_def D_def md_def)
  finally have Hc: "c * D \<le> H" .
  have "(1 - u)\<^sup>2 * md * 1 \<le> (1 - u)\<^sup>2 * md * (((1 + u) * D) / dst)"
    using Dd dst md by (intro mult_left_mono) simp_all
  also have "\<dots> = (1 + u) * (c * D)"
    by (simp add: c_def)
  finally have cD: "(1 - u)\<^sup>2 * md \<le> (1 + u) * (c * D)"
    by simp
  have "(1 - u)\<^sup>2 * ((1 - u) * M) \<le> (1 - u)\<^sup>2 * md"
    using mdM by (intro mult_left_mono) simp_all
  also note cD
  also have "(1 + u) * (c * D) \<le> (1 + u) * H"
    using Hc u by (intro mult_left_mono) simp_all
  finally have HM: "(1 - u) ^ 3 * M \<le> (1 + u) * H"
    by (simp add: power2_eq_square power3_eq_cube ac_simps)
  have H: "0 \<le> H"
    unfolding H_def by (rule hypot_nonneg)
  have err: "\<bar>fl (a + p) - (a + p)\<bar> \<le> u * (\<bar>a\<bar> + \<bar>p\<bar>)" for a p
  proof -
    have "\<bar>fl (a + p) - (a + p)\<bar> \<le> u * \<bar>a + p\<bar>"
      unfolding u_def by (rule fl_near)
    also have "\<dots> \<le> u * (\<bar>a\<bar> + \<bar>p\<bar>)"
      using u by (intro mult_left_mono) simp_all
    finally show ?thesis .
  qed
  have pH: "\<bar>px\<bar> \<le> H" "\<bar>py\<bar> \<le> H"
    unfolding H_def by (rule abs_le_hypot)+
  have "hypot (fl (cx + px) - (cx + px)) (fl (cy + py) - (cy + py))
          \<le> \<bar>fl (cx + px) - (cx + px)\<bar> + \<bar>fl (cy + py) - (cy + py)\<bar>"
    by (rule hypot_le_sum_abs)
  also have "\<dots> \<le> u * (\<bar>cx\<bar> + \<bar>px\<bar>) + u * (\<bar>cy\<bar> + \<bar>py\<bar>)"
    by (intro add_mono err)
  also have "\<dots> \<le> u * (\<bar>cx\<bar> + H) + u * (\<bar>cy\<bar> + H)"
    using pH u by (intro add_mono mult_left_mono) simp_all
  also have "\<dots> = 2 * u * H + u * C"
    by (simp add: C_def algebra_simps)
  finally have e: "hypot (fl (cx + px) - (cx + px)) (fl (cy + py) - (cy + py)) \<le> 2 * u * H + u * C" .
  have "H - hypot (fl (cx + px) - (cx + px)) (fl (cy + py) - (cy + py))
          \<le> hypot (px + (fl (cx + px) - (cx + px))) (py + (fl (cy + py) - (cy + py)))"
    unfolding H_def by (rule hypot_triangle_lower)
  also have "\<dots> = T"
    by (simp add: T_def)
  finally have TH: "(1 - 2 * u) * H - u * C \<le> T"
    using e by (simp add: algebra_simps)
  have C: "0 \<le> C" by (simp add: C_def)
  have "(1 + u) * ((1 - 8 * u) * M - u * C)
          = ((1 - 8 * u) * (1 + u)) * M - (1 + u) * (u * C)"
    by (simp add: algebra_simps)
  also have "\<dots> \<le> ((1 - 2 * u) * (1 - u) ^ 3) * M - (1 + u) * (u * C)"
    using roundoff_hit_lower M by (intro diff_right_mono mult_right_mono) (simp_all add: u_def)
  also have "\<dots> = (1 - 2 * u) * ((1 - u) ^ 3 * M) - (1 + u) * (u * C)"
    by simp
  also have "\<dots> \<le> (1 - 2 * u) * ((1 + u) * H) - (1 + u) * (u * C)"
    using HM u by (intro diff_right_mono mult_left_mono) simp_all
  also have "\<dots> = (1 + u) * ((1 - 2 * u) * H - u * C)"
    by (simp add: algebra_simps)
  also have "\<dots> \<le> (1 + u) * T"
    using TH u by (intro mult_left_mono) simp_all
  finally have "(1 + u) * ((1 - 8 * u) * M - u * C) \<le> (1 + u) * T" .
  moreover have "0 < 1 + u" using u by simp
  ultimately have "(1 - 8 * u) * M - u * C \<le> T"
    by (simp only: mult_le_cancel_left_pos)
  moreover have "M - 8 * u * (C + M) \<le> (1 - 8 * u) * M - u * C"
    using u C by (simp add: algebra_simps)
  ultimately show ?thesis
    by (simp add: T_def u_def C_def)
qed

lemma moved_fl_fields:
  "ball_arena (grow_radius_fl dt (apply_motion_fl dt b)) = ball_arena b"
  "color_index (grow_radius_fl dt (apply_motion_fl dt b)) = color_index b"
  "trails (grow_radius_fl dt (apply_motion_fl dt b)) = trails b"
  "ball_radius (grow_radius_fl dt (apply_motion_fl dt b)) = ball_radius (grow_radius_fl dt b)"
  by (simp_all add: grow_radius_fl_def apply_motion_fl_def Let_def)

lemma BALL_MAX_RATIO_fl_eq: "BALL_MAX_RATIO_fl = 3602879701896397 / 4503599627370496"
  unfolding BALL_MAX_RATIO_fl_def using fl_4_5 by simp

lemma grown_radius_fl_fits:
  assumes "ball_radius b \<le> arena_radius (ball_arena b)" and R: "0 \<le> arena_radius (ball_arena b)"
  shows "ball_radius (grow_radius_fl dt b) \<le> arena_radius (ball_arena b)"
proof -
  define R where "R = arena_radius (ball_arena b)"
  have "fl (R * BALL_MAX_RATIO_fl) \<le> (1 + unit_roundoff) * (R * BALL_MAX_RATIO_fl)"
    using fl_abs_le [of "R * BALL_MAX_RATIO_fl"] R
    by (simp add: R_def BALL_MAX_RATIO_fl_eq abs_mult)
  also have "\<dots> = R * ((1 + unit_roundoff) * BALL_MAX_RATIO_fl)"
    by simp
  also have "\<dots> \<le> R * 1"
    using R unfolding R_def
    by (intro mult_left_mono) (simp_all add: BALL_MAX_RATIO_fl_eq unit_roundoff_def)
  finally have "fl (R * BALL_MAX_RATIO_fl) \<le> R"
    by simp
  with assms(1) show ?thesis
    by (simp add: grow_radius_fl_def Let_def min_def R_def)
qed

lemma resolve_collision_fl_miss:
  "\<not> hits_boundary_fl m \<Longrightarrow> resolve_collision_fl m = Inr m"
  by (simp add: resolve_collision_fl_def hits_boundary_fl_def Let_def)

lemma resolve_collision_fl_hit:
  assumes hit: "hits_boundary_fl m" and col: "Ball_color m = Inr col"
    and pos: "0 \<le> fl (arena_radius (ball_arena m) - ball_radius m)"
  shows "\<exists>b'. resolve_collision_fl m = Inr b'
           \<and> ball_x b' = fl (arena_cx (ball_arena m)
                 + fl (fl (fl (ball_x m - arena_cx (ball_arena m))
                            / hypot_fl (fl (ball_x m - arena_cx (ball_arena m)))
                                       (fl (ball_y m - arena_cy (ball_arena m))))
                       * fl (arena_radius (ball_arena m) - ball_radius m)))
           \<and> ball_y b' = fl (arena_cy (ball_arena m)
                 + fl (fl (fl (ball_y m - arena_cy (ball_arena m))
                            / hypot_fl (fl (ball_x m - arena_cx (ball_arena m)))
                                       (fl (ball_y m - arena_cy (ball_arena m))))
                       * fl (arena_radius (ball_arena m) - ball_radius m)))
           \<and> ball_radius b' = ball_radius m
           \<and> ball_arena b' = ball_arena m
           \<and> color_index b' = (color_index m + 1) mod int (length COLORS)"
proof -
  define dx where "dx = fl (ball_x m - arena_cx (ball_arena m))"
  define dy where "dy = fl (ball_y m - arena_cy (ball_arena m))"
  define md where "md = fl (arena_radius (ball_arena m) - ball_radius m)"
  define nx where "nx = fl (dx / hypot_fl dx dy)"
  define ny where "ny = fl (dy / hypot_fl dx dy)"
  define b3 where "b3 = Ball_reflect_on_circle_fl nx ny
                          (m\<lparr>ball_x := fl (arena_cx (ball_arena m) + fl (nx * md)),
                             ball_y := fl (arena_cy (ball_arena m) + fl (ny * md))\<rparr>)"
  have c: "Ball_color b3 = Inr col"
    using col by (simp add: b3_def Ball_color_def Ball_reflect_on_circle_fl_def Let_def)
  have f: "ball_x b3 = fl (arena_cx (ball_arena m) + fl (nx * md))"
          "ball_y b3 = fl (arena_cy (ball_arena m) + fl (ny * md))"
          "ball_radius b3 = ball_radius m" "ball_arena b3 = ball_arena m"
          "color_index b3 = color_index m"
    by (simp_all add: b3_def Ball_reflect_on_circle_fl_def Let_def)
  from hit pos have gt: "md < hypot_fl dx dy" and nz: "hypot_fl dx dy \<noteq> 0"
    by (auto simp: hits_boundary_fl_def dx_def dy_def md_def)
  have n: "collision_normal_fl dx dy (hypot_fl dx dy) = Inr (nx, ny)"
    using nz by (simp add: collision_normal_fl_def float_div_fl_def nx_def ny_def)
  have "resolve_collision_fl m
          = Inr (Ball_cycle_color (b3\<lparr>trails :=
                   TrailManager_add_impact_fl (ball_x b3, ball_y b3) col (trails b3)\<rparr>))"
    unfolding resolve_collision_fl_def Let_def
    using gt by (simp add: dx_def [symmetric] dy_def [symmetric] md_def [symmetric] n
                           b3_def [symmetric] c)
  then show ?thesis
    by (simp add: Ball_cycle_color_def f dx_def dy_def md_def nx_def ny_def)
qed

text \<open>
  Claim C1, amended, in double arithmetic. Take a ball whose radius is at most the radius
  of its arena, which is not negative (every state that satisfies the containment
  invariant is such a state), and a colour index that \<open>COLORS\<close> accepts. Then
  \<open>Ball.update\<close> returns, and afterwards the distance from the ball to the centre of the
  arena is at most \<open>arena.radius - radius + epsilon\<close>, with the radius after growth and
  \<open>epsilon = 2^-50 * (|cx| + |cy| + arena.radius - radius)\<close>. When the moved ball had left
  the disc, as the code measures it, the clamp puts it within \<open>epsilon\<close> of the circle of
  radius \<open>arena.radius - radius\<close>, on either side.
\<close>

theorem containment_up_to_rounding:
  assumes fits: "ball_radius b \<le> arena_radius (ball_arena b)"
      and arena: "0 \<le> arena_radius (ball_arena b)"
      and color: "valid_color_index b"
  shows "\<exists>b'. Ball_update_fl dt b = Inr b'
           \<and> ball_arena b' = ball_arena b
           \<and> max_dist b' = arena_radius (ball_arena b) - ball_radius (grow_radius_fl dt b)
           \<and> 0 \<le> max_dist b'
           \<and> center_dist b' \<le> max_dist b' + epsilon b'
           \<and> (hits_boundary_fl (grow_radius_fl dt (apply_motion_fl dt b)) \<longrightarrow>
                 max_dist b' - epsilon b' \<le> center_dist b')"
proof -
  let ?m = "grow_radius_fl dt (apply_motion_fl dt b)"
  let ?cx = "arena_cx (ball_arena b)" and ?cy = "arena_cy (ball_arena b)"
  define M where "M = arena_radius (ball_arena b) - ball_radius (grow_radius_fl dt b)"
  have M: "0 \<le> M"
    using grown_radius_fl_fits [OF fits arena, of dt] by (simp add: M_def)
  have mM: "arena_radius (ball_arena ?m) - ball_radius ?m = M"
    by (simp add: M_def moved_fl_fields)
  have fields: "center_dist (record_trails_fl dt c) = hypot (ball_x c - ?cx) (ball_y c - ?cy)"
               "max_dist (record_trails_fl dt c) = M"
               "epsilon (record_trails_fl dt c) = 8 * unit_roundoff * (\<bar>?cx\<bar> + \<bar>?cy\<bar> + M)"
               "ball_arena (record_trails_fl dt c) = ball_arena b"
    if "ball_arena c = ball_arena b" and "ball_radius c = ball_radius ?m" for c
    using that
    by (simp_all add: center_dist_def max_dist_def epsilon_def record_trails_fl_def
                      moved_fl_fields M_def)
  show ?thesis
  proof (cases "hits_boundary_fl ?m")
    case False
    then have "fl (hypot (fl (ball_x ?m - ?cx)) (fl (ball_y ?m - ?cy))) \<le> fl M"
      unfolding hits_boundary_fl_def mM by (simp add: hypot_fl_def moved_fl_fields)
    from miss_error [OF M this]
    have "hypot (ball_x ?m - ?cx) (ball_y ?m - ?cy)
            \<le> M + 8 * unit_roundoff * (\<bar>?cx\<bar> + \<bar>?cy\<bar> + M)" .
    moreover have "Ball_update_fl dt b = Inr (record_trails_fl dt ?m)"
      by (simp add: Ball_update_fl_def resolve_collision_fl_miss [OF False])
    moreover note fields [of ?m, OF moved_fl_fields(1) refl]
    ultimately show ?thesis
      using M False by (simp add: M_def)
  next
    case True
    have "valid_color_index ?m"
      using color by (simp add: valid_color_index_def moved_fl_fields)
    note col = Ball_color_valid [OF this]
    have pos: "0 \<le> fl (arena_radius (ball_arena ?m) - ball_radius ?m)"
      unfolding mM by (rule fl_nonneg [OF M])
    define dx where "dx = fl (ball_x ?m - ?cx)"
    define dy where "dy = fl (ball_y ?m - ?cy)"
    from resolve_collision_fl_hit [OF True col pos] obtain b1 where
      r: "resolve_collision_fl ?m = Inr b1"
      and px: "ball_x b1 = fl (?cx + fl (fl (dx / fl (hypot dx dy)) * fl M))"
      and py: "ball_y b1 = fl (?cy + fl (fl (dy / fl (hypot dx dy)) * fl M))"
      and br: "ball_radius b1 = ball_radius ?m"
      and ba: "ball_arena b1 = ball_arena b"
      unfolding mM by (auto simp: moved_fl_fields dx_def dy_def hypot_fl_def)
    have hit: "fl M < fl (hypot dx dy)"
      using True unfolding hits_boundary_fl_def mM
      by (simp add: hypot_fl_def moved_fl_fields dx_def dy_def)
    from hit_error [OF M hit refl refl refl refl, of ?cx ?cy]
    have up: "hypot (ball_x b1 - ?cx) (ball_y b1 - ?cy)
            \<le> M + 8 * unit_roundoff * (\<bar>?cx\<bar> + \<bar>?cy\<bar> + M)"
      unfolding px py .
    from hit_error_lower [OF M hit refl refl refl refl, of ?cx ?cy]
    have lo: "M - 8 * unit_roundoff * (\<bar>?cx\<bar> + \<bar>?cy\<bar> + M)
            \<le> hypot (ball_x b1 - ?cx) (ball_y b1 - ?cy)"
      unfolding px py .
    have "Ball_update_fl dt b = Inr (record_trails_fl dt b1)"
      by (simp add: Ball_update_fl_def r)
    moreover note fields [of b1, OF ba br]
    ultimately show ?thesis
      using M up lo by (simp add: M_def)
  qed
qed

lemma graze_hits: "hits_boundary_fl (grow_radius_fl (1 / 8) (apply_motion_fl (1 / 8) grazing_ball))"
  by (simp add: hits_boundary_fl_def hypot_fl_def hypot_def
                grow_radius_fl_def apply_motion_fl_def grazing_ball_def app_ball_def app_arena_def
                Let_def LINEAR_FRICTION_fl_def BALL_MAX_RATIO_fl_def GRAVITY_def GROWTH_PER_SEC_def
                BALL_BASE_RADIUS_def graze_fl)

theorem containment_up_to_rounding_witness:
  "ball_radius grazing_ball \<le> arena_radius (ball_arena grazing_ball)
   \<and> 0 \<le> arena_radius (ball_arena grazing_ball)
   \<and> valid_color_index grazing_ball
   \<and> hits_boundary_fl (grow_radius_fl (1 / 8) (apply_motion_fl (1 / 8) grazing_ball))
   \<and> center_dist grazing_ball_after \<le> max_dist grazing_ball_after + epsilon grazing_ball_after
   \<and> max_dist grazing_ball_after - epsilon grazing_ball_after \<le> center_dist grazing_ball_after
   \<and> max_dist grazing_ball_after = 467 / 2
   \<and> epsilon grazing_ball_after = 1867 / 2251799813685248"
proof -
  have fits: "ball_radius grazing_ball \<le> arena_radius (ball_arena grazing_ball)"
    and arena: "0 \<le> arena_radius (ball_arena grazing_ball)"
    by (simp_all add: grazing_ball_def app_ball_def app_arena_def BALL_BASE_RADIUS_def)
  have color: "valid_color_index grazing_ball"
    by (simp add: valid_color_index_def grazing_ball_def app_ball_def COLORS_def)
  from containment_up_to_rounding [OF fits arena color, of "1 / 8"] graze_hits
  have "center_dist grazing_ball_after \<le> max_dist grazing_ball_after + epsilon grazing_ball_after
        \<and> max_dist grazing_ball_after - epsilon grazing_ball_after \<le> center_dist grazing_ball_after"
    unfolding graze_update by auto
  moreover have "max_dist grazing_ball_after = 467 / 2"
    by (simp add: max_dist_def grazing_ball_after_def app_arena_def)
  moreover from this have "epsilon grazing_ball_after = 1867 / 2251799813685248"
    by (simp add: epsilon_def unit_roundoff_def grazing_ball_after_def app_arena_def)
  ultimately show ?thesis
    using fits arena color graze_hits by blast
qed

end
